theory Spec2Isabelle
  imports Main
begin

section \<open>JavaScript strings\<close>

text \<open>
  Strings are lists of 8-bit characters. Header names, directive keys, HTTP methods and
  hash names are ASCII, and the case mappings below act on the ASCII letters; every other
  character is left as it is.
\<close>

definition toLowerChar :: "char \<Rightarrow> char" where
  "toLowerChar c =
     (let n = (of_char c :: nat) in if 65 \<le> n \<and> n \<le> 90 then char_of (n + 32) else c)"

definition toUpperChar :: "char \<Rightarrow> char" where
  "toUpperChar c =
     (let n = (of_char c :: nat) in if 97 \<le> n \<and> n \<le> 122 then char_of (n - 32) else c)"

definition toLowerCase :: "string \<Rightarrow> string" where
  "toLowerCase s = map toLowerChar s"

definition toUpperCase :: "string \<Rightarrow> string" where
  "toUpperCase s = map toUpperChar s"

definition startsWith :: "string \<Rightarrow> string \<Rightarrow> bool" where
  "startsWith s p = (take (length p) s = p)"

text \<open>\<open>s.indexOf(p)\<close>: the first position where \<open>p\<close> occurs, \<open>None\<close> for JavaScript's -1.\<close>

fun indexOf :: "string \<Rightarrow> string \<Rightarrow> nat option" where
  "indexOf [] p = (if p = [] then Some 0 else None)"
| "indexOf (c # cs) p =
     (if startsWith (c # cs) p then Some 0 else map_option Suc (indexOf cs p))"

definition includesStr :: "string \<Rightarrow> string \<Rightarrow> bool" where
  "includesStr s p = (indexOf s p \<noteq> None)"

definition substring :: "string \<Rightarrow> nat \<Rightarrow> string" where
  "substring s i = drop i s"

text \<open>\<open>s.padStart(n, "0")\<close> for a one-character filler.\<close>

definition padStart :: "nat \<Rightarrow> char \<Rightarrow> string \<Rightarrow> string" where
  "padStart n c s = replicate (n - length s) c @ s"

text \<open>The truthiness of an optional string: \<open>undefined\<close> and \<open>""\<close> are falsy.\<close>

fun truthy :: "string option \<Rightarrow> bool" where
  "truthy None = False"
| "truthy (Some s) = (s \<noteq> [])"

text \<open>\<open>a || d\<close> on an optional string.\<close>

fun orElse :: "string option \<Rightarrow> string \<Rightarrow> string" where
  "orElse None d = d"
| "orElse (Some s) d = (if s = [] then d else s)"

section \<open>The challenge and its parser\<close>

record DigestChallenge =
  realm :: string
  nonce :: string
  qop :: "string option"
  opaque :: "string option"
  algorithm :: "string option"

text \<open>The class \<open>\w\<close> of a regular expression without the unicode flag.\<close>

definition isWordChar :: "char \<Rightarrow> bool" where
  "isWordChar c =
     (let n = (of_char c :: nat) in
        (48 \<le> n \<and> n \<le> 57) \<or> (65 \<le> n \<and> n \<le> 90) \<or> (97 \<le> n \<and> n \<le> 122) \<or> n = 95)"

text \<open>
  The part of \<open>/(\w+)=(?:"([^"]*)"|([^,]*))/\<close> after the \<open>=\<close>: the quoted alternative
  needs its closing quote; without one the match backtracks into the unquoted alternative,
  which runs to the next comma and keeps the opening quote. The result is the value
  (\<open>match[2]\<close> if defined, else \<open>match[3]\<close>) and the input after the match.
\<close>

definition matchValue :: "string \<Rightarrow> string \<times> string" where
  "matchValue s =
     (case s of
        c # t \<Rightarrow>
          if c = CHR 0x22 \<and> dropWhile (\<lambda>x. x \<noteq> CHR 0x22) t \<noteq> []
          then (takeWhile (\<lambda>x. x \<noteq> CHR 0x22) t, tl (dropWhile (\<lambda>x. x \<noteq> CHR 0x22) t))
          else (takeWhile (\<lambda>x. x \<noteq> CHR '','') s, dropWhile (\<lambda>x. x \<noteq> CHR '','') s)
      | [] \<Rightarrow> ([], []))"

text \<open>
  A match of the whole expression that starts at the head of the input: the longest run
  of word characters, which must be non-empty and followed by \<open>=\<close>.
\<close>

definition matchHere :: "string \<Rightarrow> (string \<times> string \<times> string) option" where
  "matchHere s =
     (let k = takeWhile isWordChar s; r = dropWhile isWordChar s in
        if k \<noteq> [] \<and> r \<noteq> [] \<and> hd r = CHR ''=''
        then (case matchValue (tl r) of (v, rest) \<Rightarrow> Some (k, v, rest))
        else None)"

text \<open>
  \<open>regex.exec\<close> from \<open>lastIndex\<close>: the leftmost match in the remaining input, as the key
  \<open>match[1]\<close>, the value and the input after the match (the new \<open>lastIndex\<close>).
\<close>

fun regexExec :: "string \<Rightarrow> (string \<times> string \<times> string) option" where
  "regexExec [] = None"
| "regexExec (c # cs) =
     (case matchHere (c # cs) of Some m \<Rightarrow> Some m | None \<Rightarrow> regexExec cs)"

text \<open>The \<open>switch (key)\<close> of the loop body; unknown keys fall through.\<close>

definition assignKey :: "string \<Rightarrow> string \<Rightarrow> DigestChallenge \<Rightarrow> DigestChallenge" where
  "assignKey key val ch =
     (if key = ''realm'' then ch\<lparr>realm := val\<rparr>
      else if key = ''nonce'' then ch\<lparr>nonce := val\<rparr>
      else if key = ''qop'' then ch\<lparr>qop := Some val\<rparr>
      else if key = ''opaque'' then ch\<lparr>opaque := Some val\<rparr>
      else if key = ''algorithm'' then ch\<lparr>algorithm := Some val\<rparr>
      else ch)"

lemma matchValue_length: "matchValue s = (v, rest) \<Longrightarrow> length rest \<le> length s"
proof (cases s)
  case Nil
  assume "matchValue s = (v, rest)"
  with Nil show ?thesis by (simp add: matchValue_def)
next
  case (Cons c t)
  assume m: "matchValue s = (v, rest)"
  have a: "length (tl (dropWhile (\<lambda>x. x \<noteq> CHR 0x22) t)) \<le> length (c # t)"
    using length_dropWhile_le [of "\<lambda>x. x \<noteq> CHR 0x22" t] by simp
  have b: "length (dropWhile (\<lambda>x. x \<noteq> CHR '','') (c # t)) \<le> length (c # t)"
    by (rule length_dropWhile_le)
  from m Cons a b show ?thesis
    by (auto simp: matchValue_def split: if_splits)
qed

lemma matchHere_length: "matchHere s = Some (k, v, rest) \<Longrightarrow> length rest < length s"
proof -
  assume m: "matchHere s = Some (k, v, rest)"
  let ?r = "dropWhile isWordChar s"
  from m have r: "?r \<noteq> []" and mv: "matchValue (tl ?r) = (v, rest)"
    by (auto simp: matchHere_def Let_def split: if_splits prod.splits)
  from mv have "length rest \<le> length (tl ?r)" by (rule matchValue_length)
  also from r have "\<dots> < length ?r" by (cases ?r) auto
  also have "\<dots> \<le> length s" by (rule length_dropWhile_le)
  finally show ?thesis .
qed

lemma regexExec_length: "regexExec s = Some (k, v, rest) \<Longrightarrow> length rest < length s"
proof (induction s)
  case Nil
  then show ?case by simp
next
  case (Cons c cs)
  show ?case
  proof (cases "matchHere (c # cs)")
    case None
    with Cons show ?thesis by fastforce
  next
    case (Some m)
    with Cons.prems have "matchHere (c # cs) = Some (k, v, rest)" by simp
    then show ?thesis by (rule matchHere_length)
  qed
qed

text \<open>The \<open>while ((match = regex.exec(authHeader)) !== null)\<close> loop.\<close>

function parseLoop :: "string \<Rightarrow> DigestChallenge \<Rightarrow> DigestChallenge" where
  "parseLoop s ch =
     (case regexExec s of
        None \<Rightarrow> ch
      | Some (k, v, rest) \<Rightarrow> parseLoop rest (assignKey (toLowerCase k) v ch))"
  by pat_completeness auto
termination
  by (relation "measure (\<lambda>(s, ch). length s)") (auto dest: regexExec_length)

declare parseLoop.simps [simp del]

definition parseDigestChallenge :: "string \<Rightarrow> DigestChallenge" where
  "parseDigestChallenge authHeader =
     parseLoop authHeader
       \<lparr>realm = [], nonce = [], qop = None, opaque = None, algorithm = None\<rparr>"

section \<open>The nonce count\<close>

text \<open>
  The nonce count is a counter that starts at 0 and only ever grows by one or is reset,
  so it is a natural number. \<open>nc.toString(16)\<close> writes it in lowercase hexadecimal
  without leading zeros.
\<close>

definition hexDigit :: "nat \<Rightarrow> char" where
  "hexDigit d = ''0123456789abcdef'' ! d"

function toString16 :: "nat \<Rightarrow> string" where
  "toString16 n =
     (if n < 16 then [hexDigit n] else toString16 (n div 16) @ [hexDigit (n mod 16)])"
  by pat_completeness auto
termination
  by (relation "measure (\<lambda>n. n)") auto

declare toString16.simps [simp del]

definition formatNonceCount :: "nat \<Rightarrow> string" where
  "formatNonceCount nc = padStart 8 (CHR ''0'') (toString16 nc)"

section \<open>Errors and the console\<close>

text \<open>
  The source throws plain \<open>Error\<close> objects that differ in their message, and the probe
  rejects with the HTTP client's own error; each throw site is one constructor:
  \<^item> \<open>ProbeFailed status\<close>: the probe's status is not 401 (the client rejects it through
    \<open>validateStatus\<close>; "Expected 401 status code but got ...");
  \<^item> \<open>NetworkFailure\<close>: the probe got no response;
  \<^item> \<open>MissingAuthHeader\<close>: "Missing WWW-Authenticate header";
  \<^item> \<open>UnsupportedScheme header\<close>: "Invalid authentication type: ...";
  \<^item> \<open>InvalidChallenge challenge\<close>: "Invalid digest challenge: ...";
  \<^item> \<open>NoChallengeAvailable\<close>: "No valid digest challenge available";
  \<^item> \<open>UnsupportedAlgorithm name\<close>: \<open>crypto.createHash\<close> rejects the digest name.
\<close>

datatype error =
    ProbeFailed nat
  | NetworkFailure
  | MissingAuthHeader
  | UnsupportedScheme string
  | InvalidChallenge DigestChallenge
  | NoChallengeAvailable
  | UnsupportedAlgorithm string

text \<open>
  A request configuration, as far as the code reads and writes it: \<open>method\<close>, \<open>url\<close>,
  \<open>baseURL\<close> and the \<open>Authorization\<close> entry of \<open>headers\<close>.

  What the code does to the outside, in the order it does it: a line on the console
  (level, message, further arguments), the unauthenticated probe (method, url, baseURL;
  it carries no headers) or the forwarded request. A further argument of a console line
  is a string, an object literal with its properties in the order they are written, the
  challenge object, or a caught error.
\<close>

datatype log_arg =
    Text string
  | Fields "(string \<times> string) list"
  | Shown DigestChallenge
  | Thrown error

record AxiosRequestConfig =
  cfg_method :: "string option"
  cfg_url :: "string option"
  cfg_baseURL :: "string option"
  cfg_authorization :: "string option"

datatype event =
    Console string string "log_arg list"
  | Probe "string option" "string option" "string option"
  | Send AxiosRequestConfig

section \<open>The response calculator\<close>

text \<open>
  \<open>crypto.createHash(name)\<close> is the platform's: it yields the hex digest function of the
  named algorithm, or throws for a name it does not know (\<open>None\<close>).
\<close>

type_synonym crypto = "string \<Rightarrow> (string \<Rightarrow> string) option"

text \<open>The two template strings of the response base.\<close>

definition responseBase ::
  "DigestChallenge \<Rightarrow> string \<Rightarrow> string \<Rightarrow> string \<Rightarrow> string \<Rightarrow> string" where
  "responseBase challenge ha1 ha2 ncFormatted cnonce =
     (if truthy (qop challenge)
      then ha1 @ '':'' @ nonce challenge @ '':'' @ ncFormatted @ '':'' @ cnonce @ '':''
           @ orElse (qop challenge) [] @ '':'' @ ha2
      else ha1 @ '':'' @ nonce challenge @ '':'' @ ha2)"

text \<open>
  First file (lines 52-92): the algorithm is the constant \<open>"MD5"\<close>, and the values of the
  calculation go to the console before the response is hashed.
\<close>

definition calculateDigestResponse_v1 ::
  "crypto \<Rightarrow> string \<Rightarrow> string \<Rightarrow> DigestChallenge \<Rightarrow> nat \<Rightarrow> string \<Rightarrow> string \<Rightarrow> string
     \<Rightarrow> event list \<times> (error + string)" where
  "calculateDigestResponse_v1 createHash username password challenge nc cnonce method uri =
     (let algorithm = ''MD5'' in
      case createHash (toLowerCase algorithm) of
        None \<Rightarrow> ([], Inl (UnsupportedAlgorithm algorithm))
      | Some hashFunction \<Rightarrow>
          let ha1 = hashFunction (username @ '':'' @ realm challenge @ '':'' @ password);
              ha2 = hashFunction (method @ '':'' @ uri);
              ncFormatted = formatNonceCount nc
          in ([Console ''log'' ''Digest calculation values:''
                 [Fields [(''username'', username), (''realm'', realm challenge),
                          (''method'', method), (''uri'', uri), (''nonce'', nonce challenge),
                          (''nc'', ncFormatted), (''cnonce'', cnonce),
                          (''qop'', orElse (qop challenge) ''none''),
                          (''ha1'', ha1), (''ha2'', ha2)]]],
              Inr (hashFunction (responseBase challenge ha1 ha2 ncFormatted cnonce))))"

text \<open>
  Second file (lines 283-308): the algorithm is \<open>challenge.algorithm || "MD5"\<close>, and
  nothing goes to the console.
\<close>

definition calculateDigestResponse_v2 ::
  "crypto \<Rightarrow> string \<Rightarrow> string \<Rightarrow> DigestChallenge \<Rightarrow> nat \<Rightarrow> string \<Rightarrow> string \<Rightarrow> string
     \<Rightarrow> error + string" where
  "calculateDigestResponse_v2 createHash username password challenge nc cnonce method uri =
     (let algorithm = orElse (algorithm challenge) ''MD5'' in
      case createHash (toLowerCase algorithm) of
        None \<Rightarrow> Inl (UnsupportedAlgorithm algorithm)
      | Some hashFunction \<Rightarrow>
          let ha1 = hashFunction (username @ '':'' @ realm challenge @ '':'' @ password);
              ha2 = hashFunction (method @ '':'' @ uri);
              ncFormatted = formatNonceCount nc
          in Inr (hashFunction (responseBase challenge ha1 ha2 ncFormatted cnonce)))"

section \<open>The client\<close>

record DigestAuthConfig =
  username :: string
  password :: string

text \<open>The two variables the interceptors share: \<open>nc\<close> and \<open>cachedChallenge\<close>.\<close>

record ClientState =
  nc :: nat
  cachedChallenge :: "DigestChallenge option"

definition initialState :: ClientState where
  "initialState = \<lparr>nc = 0, cachedChallenge = None\<rparr>"

text \<open>
  What the network answers to a request: nothing (a timeout, a refused connection), or a
  response with its status and its \<open>www-authenticate\<close> header.
\<close>

datatype outcome = NoResponse | Response nat "string option"

text \<open>
  \<open>new URL(url, base)\<close> is the platform's parser: \<open>None\<close> when it throws, else the
  \<open>pathname\<close> and \<open>search\<close> of the parsed URL.
\<close>

record URL =
  pathname :: string
  search :: string

type_synonym url_parser = "string \<Rightarrow> string option \<Rightarrow> URL option"

subsection \<open>Acquiring or reusing the challenge\<close>

text \<open>
  The first \<open>if\<close> of the request interceptor, with the state it leaves, what it did and
  the error it threw, if any. \<open>probe\<close> is the answer to the unauthenticated request, which
  is sent with \<open>validateStatus: status === 401\<close>: any other status is rejected.
  The first file (lines 107-146) refreshes above 99 and parses \<open>digestPart\<close>, what
  follows the first \<open>"digest "\<close> of the header: the substring from \<open>indexOf("digest ") + 7\<close>,
  where \<open>indexOf\<close> is -1 for no occurrence.
\<close>

definition digestPart :: "string \<Rightarrow> string" where
  "digestPart authHeader =
     substring authHeader
       (case indexOf (toLowerCase authHeader) ''digest '' of None \<Rightarrow> 6 | Some i \<Rightarrow> i + 7)"

definition acquire_v1 ::
  "outcome \<Rightarrow> ClientState \<Rightarrow> AxiosRequestConfig \<Rightarrow> ClientState \<times> event list \<times> error option" where
  "acquire_v1 probe st requestConfig =
     (if cachedChallenge st = None \<or> nc st > 99 then
        (let sent = [Console ''log'' ''Requesting new digest challenge...'' [],
                     Probe (cfg_method requestConfig) (cfg_url requestConfig)
                       (cfg_baseURL requestConfig)]
         in case probe of
              NoResponse \<Rightarrow> (st, sent, Some NetworkFailure)
            | Response status header \<Rightarrow>
                if status \<noteq> 401 then (st, sent, Some (ProbeFailed status))
                else if \<not> truthy header then (st, sent, Some MissingAuthHeader)
                else
                  (let authHeader = orElse header [] in
                   if \<not> includesStr (toLowerCase authHeader) ''digest ''
                   then (st, sent, Some (UnsupportedScheme authHeader))
                   else
                     (let challenge = parseDigestChallenge (digestPart authHeader);
                          st' = st\<lparr>cachedChallenge := Some challenge\<rparr>;
                          logged = sent @ [Console ''log'' ''Desafio analisado:''
                                             [Shown challenge]]
                      in if realm challenge = [] \<or> nonce challenge = []
                         then (st', logged, Some (InvalidChallenge challenge))
                         else (st'\<lparr>nc := 1\<rparr>, logged, None))))
      else (st\<lparr>nc := nc st + 1\<rparr>, [], None))"

text \<open>
  The second file (lines 321-361) refreshes above 9999 and parses the whole header.
\<close>

definition acquire_v2 ::
  "outcome \<Rightarrow> ClientState \<Rightarrow> AxiosRequestConfig \<Rightarrow> ClientState \<times> event list \<times> error option" where
  "acquire_v2 probe st requestConfig =
     (if cachedChallenge st = None \<or> nc st > 9999 then
        (let sent = [Console ''log'' ''Requesting new digest challenge...'' [],
                     Probe (cfg_method requestConfig) (cfg_url requestConfig)
                       (cfg_baseURL requestConfig)]
         in case probe of
              NoResponse \<Rightarrow> (st, sent, Some NetworkFailure)
            | Response status header \<Rightarrow>
                if status \<noteq> 401 then (st, sent, Some (ProbeFailed status))
                else if \<not> truthy header then (st, sent, Some MissingAuthHeader)
                else
                  (let authHeader = orElse header [] in
                   if \<not> includesStr (toLowerCase authHeader) ''digest ''
                   then (st, sent, Some (UnsupportedScheme authHeader))
                   else
                     (let challenge = parseDigestChallenge authHeader;
                          st' = st\<lparr>cachedChallenge := Some challenge\<rparr>;
                          logged = sent @ [Console ''log'' ''Desafio analisado:''
                                             [Shown challenge]]
                      in if realm challenge = [] \<or> nonce challenge = []
                         then (st', logged, Some (InvalidChallenge challenge))
                         else (st'\<lparr>nc := 1\<rparr>, logged, None))))
      else (st\<lparr>nc := nc st + 1\<rparr>, [], None))"

subsection \<open>The request URI\<close>

text \<open>
  \<open>url.replace(/^https?:\/\/[^\/]+/i, '')\<close>: a leading scheme and a non-empty authority
  are cut off; a string the expression does not match stays as it is.
\<close>

definition stripOrigin :: "string \<Rightarrow> string" where
  "stripOrigin u =
     (let l = toLowerCase u;
          k = (if startsWith l ''https://'' then Some 8
               else if startsWith l ''http://'' then Some 7 else None)
      in case k of
           None \<Rightarrow> u
         | Some n \<Rightarrow>
             if takeWhile (\<lambda>x. x \<noteq> CHR ''/'') (drop n u) = [] then u
             else dropWhile (\<lambda>x. x \<noteq> CHR ''/'') (drop n u))"

text \<open>First file, lines 150-168.\<close>

definition requestUri_v1 :: "url_parser \<Rightarrow> AxiosRequestConfig \<Rightarrow> string" where
  "requestUri_v1 newURL requestConfig =
     (case cfg_url requestConfig of
        None \<Rightarrow> []
      | Some u \<Rightarrow>
          if startsWith u ''http'' then
            (case newURL u None of
               Some urlObj \<Rightarrow> pathname urlObj @ search urlObj
             | None \<Rightarrow> stripOrigin u)
          else if truthy (cfg_baseURL requestConfig) \<and> u \<noteq> [] then
            (case newURL u (cfg_baseURL requestConfig) of
               Some fullUrl \<Rightarrow> pathname fullUrl @ search fullUrl
             | None \<Rightarrow> u)
          else u)"

text \<open>Second file, lines 366-377; a failed parse is reported on the console.\<close>

definition requestUri_v2 :: "url_parser \<Rightarrow> AxiosRequestConfig \<Rightarrow> string \<times> event list" where
  "requestUri_v2 newURL requestConfig =
     (let urlString = orElse (cfg_url requestConfig) [] in
      case newURL urlString (cfg_baseURL requestConfig) of
        Some urlObj \<Rightarrow> (pathname urlObj @ search urlObj, [])
      | None \<Rightarrow>
          (urlString,
           [Console ''warn'' ''Failed to parse URL, using original:'' [Text urlString]]))"

subsection \<open>The Authorization header\<close>

definition quoted :: "string \<Rightarrow> string" where
  "quoted v = [CHR 0x22] @ v @ [CHR 0x22]"

text \<open>First file, lines 187-195.\<close>

definition authValue_v1 ::
  "string \<Rightarrow> DigestChallenge \<Rightarrow> string \<Rightarrow> string \<Rightarrow> string \<Rightarrow> string \<Rightarrow> string" where
  "authValue_v1 user challenge uri digestResponse ncValue cnonce =
     ''Digest username='' @ quoted user @ '', realm='' @ quoted (realm challenge)
     @ '', nonce='' @ quoted (nonce challenge) @ '', uri='' @ quoted uri
     @ '', response='' @ quoted digestResponse
     @ (if truthy (qop challenge)
        then '', qop='' @ orElse (qop challenge) [] @ '', nc='' @ ncValue
             @ '', cnonce='' @ quoted cnonce
        else [])
     @ (if truthy (opaque challenge)
        then '', opaque='' @ quoted (orElse (opaque challenge) []) else [])"

text \<open>Second file, lines 399-411.\<close>

definition authValue_v2 ::
  "string \<Rightarrow> DigestChallenge \<Rightarrow> string \<Rightarrow> string \<Rightarrow> string \<Rightarrow> string \<Rightarrow> string" where
  "authValue_v2 user challenge uri digestResponse ncValue cnonce =
     ''Digest username='' @ quoted user @ '', realm='' @ quoted (realm challenge)
     @ '', nonce='' @ quoted (nonce challenge) @ '', uri='' @ quoted uri
     @ '', response='' @ quoted digestResponse
     @ (if truthy (qop challenge)
        then '', qop='' @ orElse (qop challenge) [] @ '', nc='' @ ncValue
             @ '', cnonce='' @ quoted cnonce
        else [])
     @ (if truthy (opaque challenge)
        then '', opaque='' @ quoted (orElse (opaque challenge) []) else [])
     @ (if truthy (algorithm challenge)
        then '', algorithm='' @ orElse (algorithm challenge) [] else [])"

subsection \<open>The request interceptor\<close>

text \<open>The \<open>catch\<close> block: the error goes to the console and is thrown again.\<close>

definition rethrow ::
  "ClientState \<Rightarrow> event list \<Rightarrow> error
     \<Rightarrow> ClientState \<times> event list \<times> (error + AxiosRequestConfig)" where
  "rethrow st sofar e = (st, sofar @ [Console ''error'' ''Digest auth error:'' [Thrown e]], Inl e)"

text \<open>
  \<open>cnonce\<close> is the value of \<open>crypto.randomBytes(8).toString("hex")\<close> in this call.
  First file, lines 104-209.
\<close>

definition requestInterceptor_v1 ::
  "crypto \<Rightarrow> url_parser \<Rightarrow> DigestAuthConfig \<Rightarrow> outcome \<Rightarrow> string \<Rightarrow> ClientState
     \<Rightarrow> AxiosRequestConfig \<Rightarrow> ClientState \<times> event list \<times> (error + AxiosRequestConfig)" where
  "requestInterceptor_v1 createHash newURL config probe cnonce st requestConfig =
     (case acquire_v1 probe st requestConfig of
        (st1, ev1, Some e) \<Rightarrow> rethrow st1 ev1 e
      | (st1, ev1, None) \<Rightarrow>
          (let uri = requestUri_v1 newURL requestConfig in
           case cachedChallenge st1 of
             None \<Rightarrow> rethrow st1 ev1 NoChallengeAvailable
           | Some challenge \<Rightarrow>
               (let ncValue = formatNonceCount (nc st1);
                    method = orElse (map_option toUpperCase (cfg_method requestConfig)) ''GET''
                in case calculateDigestResponse_v1 createHash (username config)
                          (password config) challenge (nc st1) cnonce method uri of
                     (ev2, Inl e) \<Rightarrow> rethrow st1 (ev1 @ ev2) e
                   | (ev2, Inr digestResponse) \<Rightarrow>
                       (let authValue = authValue_v1 (username config) challenge uri
                                          digestResponse ncValue cnonce
                        in (st1,
                            ev1 @ ev2 @ [Console ''log'' ''Using auth header:'' [Text authValue]],
                            Inr (requestConfig\<lparr>cfg_authorization := Some authValue\<rparr>))))))"

text \<open>Second file, lines 318-427.\<close>

definition requestInterceptor_v2 ::
  "crypto \<Rightarrow> url_parser \<Rightarrow> DigestAuthConfig \<Rightarrow> outcome \<Rightarrow> string \<Rightarrow> ClientState
     \<Rightarrow> AxiosRequestConfig \<Rightarrow> ClientState \<times> event list \<times> (error + AxiosRequestConfig)" where
  "requestInterceptor_v2 createHash newURL config probe cnonce st requestConfig =
     (case acquire_v2 probe st requestConfig of
        (st1, ev1, Some e) \<Rightarrow> rethrow st1 ev1 e
      | (st1, ev1, None) \<Rightarrow>
          (case requestUri_v2 newURL requestConfig of
             (uri, ev2) \<Rightarrow>
               (case cachedChallenge st1 of
                  None \<Rightarrow> rethrow st1 (ev1 @ ev2) NoChallengeAvailable
                | Some challenge \<Rightarrow>
                    (let ncValue = formatNonceCount (nc st1) in
                     case calculateDigestResponse_v2 createHash (username config)
                            (password config) challenge (nc st1) cnonce
                            (orElse (map_option toUpperCase (cfg_method requestConfig)) ''GET'')
                            uri of
                       Inl e \<Rightarrow> rethrow st1 (ev1 @ ev2) e
                     | Inr digestResponse \<Rightarrow>
                         (let authValue = authValue_v2 (username config) challenge uri
                                            digestResponse ncValue cnonce
                          in (st1,
                              ev1 @ ev2
                                @ [Console ''log'' ''Using auth header:'' [Text authValue]],
                              Inr (requestConfig\<lparr>cfg_authorization := Some authValue\<rparr>)))))))"

subsection \<open>The response interceptor\<close>

text \<open>
  What a call of the client rejects with: an error of the request interceptor, the HTTP
  client's error for a response outside 2xx, or its error for no response at all.
  \<open>responseStatus\<close> is \<open>error.response.status\<close> where \<open>error.response\<close> exists: the HTTP
  client's error for a rejected status carries the response, an \<open>Error\<close> thrown by the
  interceptor has none.
\<close>

datatype failure = Interceptor error | BadStatus nat | NoReply

fun responseStatus :: "failure \<Rightarrow> nat option" where
  "responseStatus (Interceptor (ProbeFailed status)) = Some status"
| "responseStatus (Interceptor e) = None"
| "responseStatus (BadStatus status) = Some status"
| "responseStatus NoReply = None"

text \<open>
  The rejection handler of the response interceptor, the same in both files (lines 214-225
  and 432-443): it ends in \<open>Promise.reject(error)\<close> on every path.
\<close>

definition responseRejected ::
  "ClientState \<Rightarrow> failure \<Rightarrow> ClientState \<times> event list \<times> (failure + nat)" where
  "responseRejected st err =
     (if responseStatus err = Some 401 \<and> cachedChallenge st \<noteq> None
      then (st\<lparr>cachedChallenge := None, nc := 0\<rparr>,
            [Console ''log'' ''Auth failed with 401, clearing cached challenge'' []],
            Inl err)
      else (st, [], Inl err))"

subsection \<open>One call of the client\<close>

text \<open>
  A call of the instance that \<open>createDigestAuth\<close> returns runs the HTTP client's chain: the
  request interceptor, the dispatch of the request, the response interceptor. A rejection
  of the request interceptor skips the dispatch and reaches the rejection handler of the
  response interceptor. The dispatch uses the client's default \<open>validateStatus\<close>: a status
  from 200 to 299 resolves (the fulfilment handler returns the response as it is, here its
  status), any other rejects. \<open>reply\<close> is the answer to the forwarded request.
\<close>

definition dispatch ::
  "outcome \<Rightarrow> ClientState \<Rightarrow> event list \<Rightarrow> ClientState \<times> event list \<times> (failure + nat)" where
  "dispatch reply st sofar =
     (case reply of
        NoResponse \<Rightarrow>
          (case responseRejected st NoReply of (st', ev, r) \<Rightarrow> (st', sofar @ ev, r))
      | Response status header \<Rightarrow>
          if 200 \<le> status \<and> status < 300 then (st, sofar, Inr status)
          else (case responseRejected st (BadStatus status) of
                  (st', ev, r) \<Rightarrow> (st', sofar @ ev, r)))"

definition perform_v1 ::
  "crypto \<Rightarrow> url_parser \<Rightarrow> DigestAuthConfig \<Rightarrow> outcome \<Rightarrow> string \<Rightarrow> outcome \<Rightarrow> ClientState
     \<Rightarrow> AxiosRequestConfig \<Rightarrow> ClientState \<times> event list \<times> (failure + nat)" where
  "perform_v1 createHash newURL config probe cnonce reply st requestConfig =
     (case requestInterceptor_v1 createHash newURL config probe cnonce st requestConfig of
        (st1, ev1, Inl e) \<Rightarrow>
          (case responseRejected st1 (Interceptor e) of (st2, ev2, r) \<Rightarrow> (st2, ev1 @ ev2, r))
      | (st1, ev1, Inr authenticated) \<Rightarrow> dispatch reply st1 (ev1 @ [Send authenticated]))"

definition perform_v2 ::
  "crypto \<Rightarrow> url_parser \<Rightarrow> DigestAuthConfig \<Rightarrow> outcome \<Rightarrow> string \<Rightarrow> outcome \<Rightarrow> ClientState
     \<Rightarrow> AxiosRequestConfig \<Rightarrow> ClientState \<times> event list \<times> (failure + nat)" where
  "perform_v2 createHash newURL config probe cnonce reply st requestConfig =
     (case requestInterceptor_v2 createHash newURL config probe cnonce st requestConfig of
        (st1, ev1, Inl e) \<Rightarrow>
          (case responseRejected st1 (Interceptor e) of (st2, ev2, r) \<Rightarrow> (st2, ev1 @ ev2, r))
      | (st1, ev1, Inr authenticated) \<Rightarrow> dispatch reply st1 (ev1 @ [Send authenticated]))"

text \<open>Observations on what a call did.\<close>

fun isProbe :: "event \<Rightarrow> bool" where
  "isProbe (Probe m u b) = True"
| "isProbe e = False"

fun isSend :: "event \<Rightarrow> bool" where
  "isSend (Send c) = True"
| "isSend e = False"

section \<open>The specification's formulas and the examples' fixtures\<close>

text \<open>
  Reading a string of hexadecimal digits back as a number, to say what "rendered in
  hexadecimal" means.
\<close>

definition hexValue :: "char \<Rightarrow> nat" where
  "hexValue c = (let n = (of_char c :: nat) in if 48 \<le> n \<and> n \<le> 57 then n - 48 else n - 87)"

definition parseHex :: "string \<Rightarrow> nat" where
  "parseHex s = foldl (\<lambda>a c. 16 * a + hexValue c) 0 s"

text \<open>
  The response as the specification words it: the six-term form when the challenge has a
  \<open>qop\<close> field, the two-term form when it has none.
\<close>

definition spec_response ::
  "(string \<Rightarrow> string) \<Rightarrow> string \<Rightarrow> string \<Rightarrow> DigestChallenge \<Rightarrow> nat \<Rightarrow> string \<Rightarrow> string \<Rightarrow> string
     \<Rightarrow> string" where
  "spec_response h u p ch n c m uri =
     (let HA1 = h (u @ '':'' @ realm ch @ '':'' @ p);
          HA2 = h (m @ '':'' @ uri)
      in case qop ch of
           Some q \<Rightarrow>
             h (HA1 @ '':'' @ nonce ch @ '':'' @ formatNonceCount n @ '':'' @ c @ '':'' @ q
                @ '':'' @ HA2)
         | None \<Rightarrow> h (HA1 @ '':'' @ nonce ch @ '':'' @ HA2))"

text \<open>
  The algorithm as the specification words it: the challenge's \<open>algorithm\<close> field if
  present, else MD5.
\<close>

definition spec_algorithm :: "DigestChallenge \<Rightarrow> string" where
  "spec_algorithm ch = (case algorithm ch of Some a \<Rightarrow> a | None \<Rightarrow> ''MD5'')"

text \<open>
  The \<open>Authorization\<close> value as the specification words it: the directives in their
  order, each with its name, whether its value is double-quoted, and its value; \<open>qop\<close>,
  \<open>nc\<close> and \<open>cnonce\<close> only if the challenge has a \<open>qop\<close>, \<open>opaque\<close> only if it has one,
  \<open>algorithm\<close> only if it has one. The value is \<open>Digest\<close>, a space, and the directives
  separated by a comma and a space.
\<close>

definition spec_directives ::
  "string \<Rightarrow> DigestChallenge \<Rightarrow> string \<Rightarrow> string \<Rightarrow> nat \<Rightarrow> string
     \<Rightarrow> (string \<times> bool \<times> string) list" where
  "spec_directives user ch uri response n cnonce =
     [(''username'', True, user), (''realm'', True, realm ch), (''nonce'', True, nonce ch),
      (''uri'', True, uri), (''response'', True, response)]
     @ (case qop ch of
          None \<Rightarrow> []
        | Some q \<Rightarrow>
            [(''qop'', False, q), (''nc'', False, formatNonceCount n), (''cnonce'', True, cnonce)])
     @ (case opaque ch of None \<Rightarrow> [] | Some v \<Rightarrow> [(''opaque'', True, v)])
     @ (case algorithm ch of None \<Rightarrow> [] | Some v \<Rightarrow> [(''algorithm'', False, v)])"

definition renderDirective :: "string \<times> bool \<times> string \<Rightarrow> string" where
  "renderDirective d = (case d of (k, q, v) \<Rightarrow> k @ ''='' @ (if q then quoted v else v))"

fun joinWith :: "string \<Rightarrow> string list \<Rightarrow> string" where
  "joinWith sep [] = []"
| "joinWith sep [x] = x"
| "joinWith sep (x # y # ys) = x @ sep @ joinWith sep (y # ys)"

definition spec_authValue ::
  "string \<Rightarrow> DigestChallenge \<Rightarrow> string \<Rightarrow> string \<Rightarrow> nat \<Rightarrow> string \<Rightarrow> string" where
  "spec_authValue user ch uri response n cnonce =
     ''Digest '' @ joinWith '', '' (map renderDirective
                                     (spec_directives user ch uri response n cnonce))"

text \<open>A challenge without its optional fields that are the empty string.\<close>

fun dropEmpty :: "string option \<Rightarrow> string option" where
  "dropEmpty None = None"
| "dropEmpty (Some v) = (if v = [] then None else Some v)"

definition withoutEmpty :: "DigestChallenge \<Rightarrow> DigestChallenge" where
  "withoutEmpty ch =
     ch\<lparr>qop := dropEmpty (qop ch), opaque := dropEmpty (opaque ch),
        algorithm := dropEmpty (algorithm ch)\<rparr>"

text \<open>
  A crypto provider for the examples. It knows \<open>md5\<close> and \<open>sha-256\<close>, and writes a digest
  symbolically, as the algorithm's name applied to the data, so that an example shows
  which algorithm hashed which string.
\<close>

definition symbolicHash :: "string \<Rightarrow> string \<Rightarrow> string" where
  "symbolicHash name d = name @ ''('' @ d @ '')''"

definition symbolicCrypto :: crypto where
  "symbolicCrypto name =
     (if name = ''md5'' \<or> name = ''sha-256'' then Some (symbolicHash name) else None)"

text \<open>A crypto provider that tells nothing: every digest of every algorithm is \<open>0\<close>.\<close>

definition blindCrypto :: crypto where
  "blindCrypto name = Some (\<lambda>d. ''0'')"

definition exampleChallenge :: DigestChallenge where
  "exampleChallenge =
     \<lparr>realm = ''example'', nonce = ''abc123'', qop = Some ''auth'', opaque = None,
      algorithm = None\<rparr>"

definition exampleHeader :: string where
  "exampleHeader = ''Digest realm=\"example\", nonce=\"abc123\", qop=\"auth\"''"

definition exampleConfig :: DigestAuthConfig where
  "exampleConfig = \<lparr>username = ''admin'', password = ''secret''\<rparr>"

definition exampleRequest :: AxiosRequestConfig where
  "exampleRequest =
     \<lparr>cfg_method = Some ''put'',
      cfg_url = Some ''http://device.local/AccessControl/RemoteControl/door/1?x=1'',
      cfg_baseURL = None, cfg_authorization = None\<rparr>"

text \<open>
  A URL parser for the examples: it knows the URL of the example request, the path
  \<open>/door/3\<close> on the base \<open>http://device.local\<close>, and an absolute URL whose scheme is
  written in upper case, which a URL parser reads like the lower-case one.
\<close>

definition exampleURL :: url_parser where
  "exampleURL u b =
     (if u = ''http://device.local/AccessControl/RemoteControl/door/1?x=1'' \<and> b = None
      then Some \<lparr>pathname = ''/AccessControl/RemoteControl/door/1'', search = ''?x=1''\<rparr>
      else if u = ''/door/3'' \<and> b = Some ''http://device.local''
      then Some \<lparr>pathname = ''/door/3'', search = []\<rparr>
      else if u = ''HTTP://device.local:8080/door/1?x=1'' \<and> b = None
      then Some \<lparr>pathname = ''/door/1'', search = ''?x=1''\<rparr>
      else None)"

text \<open>
  The first two things a call does when it acquires a challenge, and the line that shows
  the parsed challenge.
\<close>

definition probeLines :: "AxiosRequestConfig \<Rightarrow> event list" where
  "probeLines cfg =
     [Console ''log'' ''Requesting new digest challenge...'' [],
      Probe (cfg_method cfg) (cfg_url cfg) (cfg_baseURL cfg)]"

definition parsedLine :: "DigestChallenge \<Rightarrow> event" where
  "parsedLine ch = Console ''log'' ''Desafio analisado:'' [Shown ch]"

text \<open>The line the \<open>catch\<close> block writes for an error.\<close>

definition errorLine :: "error \<Rightarrow> event" where
  "errorLine e = Console ''error'' ''Digest auth error:'' [Thrown e]"

text \<open>
  Three headers for the examples: a Basic challenge whose realm contains the word
  \<open>digest\<close>, a Digest challenge whose realm is one space, and a Digest challenge without a
  realm.
\<close>

definition basicHeader :: string where
  "basicHeader = ''Basic realm=\"digest area\", nonce=\"n\"''"

definition blankRealmHeader :: string where
  "blankRealmHeader = ''Digest realm=\" \", nonce=\"n\"''"

definition noRealmHeader :: string where
  "noRealmHeader = ''Digest nonce=\"n\"''"

text \<open>A request whose absolute URL is written with an upper-case scheme.\<close>

definition upperCaseRequest :: AxiosRequestConfig where
  "upperCaseRequest =
     \<lparr>cfg_method = Some ''put'', cfg_url = Some ''HTTP://device.local:8080/door/1?x=1'',
      cfg_baseURL = None, cfg_authorization = None\<rparr>"

text \<open>The line the response interceptor writes when it clears the cache.\<close>

definition clearedLine :: event where
  "clearedLine = Console ''log'' ''Auth failed with 401, clearing cached challenge'' []"

section \<open>The nonce count in hexadecimal\<close>

lemma hexValue_hexDigit: "d < 16 \<Longrightarrow> hexValue (hexDigit d) = d"
proof -
  assume "d < 16"
  then have d: "d \<in> set [0..<16]" by simp
  have "list_all (\<lambda>d. hexValue (hexDigit d) = d) [0..<16]" by code_simp
  with d show ?thesis unfolding list_all_iff by blast
qed

lemma hexDigit_in: "d < 16 \<Longrightarrow> hexDigit d \<in> set ''0123456789abcdef''"
  unfolding hexDigit_def by (rule nth_mem) simp

lemma parseHex_snoc: "parseHex (s @ [c]) = 16 * parseHex s + hexValue c"
  by (simp add: parseHex_def)

lemma parseHex_toString16: "parseHex (toString16 n) = n"
proof (induction n rule: toString16.induct)
  case (1 n)
  show ?case
  proof (cases "n < 16")
    case True
    then show ?thesis
      by (simp add: toString16.simps [of n] parseHex_def hexValue_hexDigit)
  next
    case False
    with 1 have "parseHex (toString16 (n div 16)) = n div 16" by simp
    with False show ?thesis
      by (simp add: toString16.simps [of n] parseHex_snoc hexValue_hexDigit)
  qed
qed

lemma parseHex_zeros: "parseHex (replicate k (CHR ''0'') @ s) = parseHex s"
proof -
  have z: "hexValue (CHR ''0'') = 0" by (simp add: hexValue_def)
  have "foldl (\<lambda>a c. 16 * a + hexValue c) 0 (replicate k (CHR ''0'')) = 0"
    by (induction k) (simp_all add: z)
  then show ?thesis by (simp add: parseHex_def)
qed

lemma toString16_digits: "set (toString16 n) \<subseteq> set ''0123456789abcdef''"
proof (induction n rule: toString16.induct)
  case (1 n)
  show ?case
  proof (cases "n < 16")
    case True
    with hexDigit_in [of n] show ?thesis by (simp add: toString16.simps [of n])
  next
    case False
    with 1 have "set (toString16 (n div 16)) \<subseteq> set ''0123456789abcdef''" by simp
    with False hexDigit_in [of "n mod 16"] show ?thesis
      by (simp add: toString16.simps [of n])
  qed
qed

lemma toString16_length: "n < 16 ^ Suc k \<Longrightarrow> length (toString16 n) \<le> Suc k"
proof (induction k arbitrary: n)
  case 0
  then show ?case by (simp add: toString16.simps [of n])
next
  case (Suc k)
  show ?case
  proof (cases "n < 16")
    case True
    then show ?thesis by (simp add: toString16.simps [of n])
  next
    case False
    from Suc.prems have "n div 16 < 16 ^ Suc k"
      by (simp add: less_mult_imp_div_less mult.commute)
    then have "length (toString16 (n div 16)) \<le> Suc k" by (rule Suc.IH)
    with False show ?thesis by (simp add: toString16.simps [of n])
  qed
qed

lemma formatNonceCount_length: "n < 16 ^ 8 \<Longrightarrow> length (formatNonceCount n) = 8"
proof -
  assume "n < 16 ^ 8"
  then have "n < 16 ^ Suc 7" by simp
  then have "length (toString16 n) \<le> Suc 7" by (rule toString16_length)
  then show ?thesis by (simp add: formatNonceCount_def padStart_def)
qed

lemma formatNonceCount_digits: "set (formatNonceCount n) \<subseteq> set ''0123456789abcdef''"
proof -
  have "set (replicate (8 - length (toString16 n)) (CHR ''0'')) \<subseteq> set ''0123456789abcdef''"
    by (simp add: set_replicate_conv_if)
  with toString16_digits [of n] show ?thesis
    by (simp add: formatNonceCount_def padStart_def)
qed

lemma parseHex_formatNonceCount: "parseHex (formatNonceCount n) = n"
  by (simp add: formatNonceCount_def padStart_def parseHex_zeros parseHex_toString16)

lemma formatNonceCount_1: "formatNonceCount 1 = ''00000001''"
  by code_simp

lemma formatNonceCount_255: "formatNonceCount 255 = ''000000ff''"
  by code_simp

section \<open>The response calculator: its formula and its algorithm\<close>

lemma toLowerCase_MD5: "toLowerCase ''MD5'' = ''md5''"
  by code_simp

lemma responseBase_spec:
  "qop ch \<noteq> Some [] \<Longrightarrow>
   h (responseBase ch (h (u @ '':'' @ realm ch @ '':'' @ p)) (h (m @ '':'' @ uri))
        (formatNonceCount n) c)
   = spec_response h u p ch n c m uri"
  by (cases "qop ch") (simp_all add: responseBase_def spec_response_def)

lemma responseBase_empty_qop:
  "qop ch = Some [] \<Longrightarrow> responseBase ch ha1 ha2 ncf c = ha1 @ '':'' @ nonce ch @ '':'' @ ha2"
  by (simp add: responseBase_def)

lemma calculateDigestResponse_v1_result:
  "createHash ''md5'' = Some h \<Longrightarrow>
   snd (calculateDigestResponse_v1 createHash u p ch n c m uri)
   = Inr (h (responseBase ch (h (u @ '':'' @ realm ch @ '':'' @ p)) (h (m @ '':'' @ uri))
               (formatNonceCount n) c))"
  by (simp add: calculateDigestResponse_v1_def toLowerCase_MD5 Let_def)

lemma calculateDigestResponse_v2_result:
  "createHash (toLowerCase (orElse (algorithm ch) ''MD5'')) = Some h \<Longrightarrow>
   calculateDigestResponse_v2 createHash u p ch n c m uri
   = Inr (h (responseBase ch (h (u @ '':'' @ realm ch @ '':'' @ p)) (h (m @ '':'' @ uri))
               (formatNonceCount n) c))"
  by (simp add: calculateDigestResponse_v2_def)

lemma calculateDigestResponse_v2_unsupported:
  "createHash (toLowerCase (orElse (algorithm ch) ''MD5'')) = None \<Longrightarrow>
   calculateDigestResponse_v2 createHash u p ch n c m uri
   = Inl (UnsupportedAlgorithm (orElse (algorithm ch) ''MD5''))"
  by (simp add: calculateDigestResponse_v2_def)

text \<open>
  C1, as the code has it. With \<open>h\<close> the digest function of the algorithm in use,
  \<open>HA1 = h("username:realm:password")\<close> and \<open>HA2 = h("method:uri")\<close>, both calculators return
  \<open>h("HA1:nonce:ncFormatted:cnonce:qop:HA2")\<close> when the challenge has a non-empty \<open>qop\<close> and
  \<open>h("HA1:nonce:HA2")\<close> when \<open>qop\<close> is absent or the empty string. \<open>ncFormatted\<close> is the
  nonce count in lowercase hexadecimal, padded with zeros to eight digits: it reads back as
  the count, has only the digits \<open>0-9a-f\<close>, is eight long for every count below \<open>16^8\<close>, and
  1 gives \<open>00000001\<close>, 255 gives \<open>000000ff\<close>.
\<close>

theorem response_formula:
  "(createHash ''md5'' = Some h \<longrightarrow>
      snd (calculateDigestResponse_v1 createHash u p ch n c m uri)
      = Inr (if qop ch = Some []
             then h (h (u @ '':'' @ realm ch @ '':'' @ p) @ '':'' @ nonce ch @ '':''
                     @ h (m @ '':'' @ uri))
             else spec_response h u p ch n c m uri))
   \<and> (createHash (toLowerCase (orElse (algorithm ch) ''MD5'')) = Some h \<longrightarrow>
      calculateDigestResponse_v2 createHash u p ch n c m uri
      = Inr (if qop ch = Some []
             then h (h (u @ '':'' @ realm ch @ '':'' @ p) @ '':'' @ nonce ch @ '':''
                     @ h (m @ '':'' @ uri))
             else spec_response h u p ch n c m uri))
   \<and> parseHex (formatNonceCount n) = n
   \<and> set (formatNonceCount n) \<subseteq> set ''0123456789abcdef''
   \<and> (n < 16 ^ 8 \<longrightarrow> length (formatNonceCount n) = 8)
   \<and> formatNonceCount 1 = ''00000001''
   \<and> formatNonceCount 255 = ''000000ff''"
proof (intro conjI impI)
  assume "createHash ''md5'' = Some h"
  then show "snd (calculateDigestResponse_v1 createHash u p ch n c m uri)
      = Inr (if qop ch = Some []
             then h (h (u @ '':'' @ realm ch @ '':'' @ p) @ '':'' @ nonce ch @ '':''
                     @ h (m @ '':'' @ uri))
             else spec_response h u p ch n c m uri)"
    using calculateDigestResponse_v1_result [of createHash h u p ch n c m uri]
      responseBase_spec [of ch h u p m uri n c]
      responseBase_empty_qop [of ch "h (u @ '':'' @ realm ch @ '':'' @ p)"
        "h (m @ '':'' @ uri)" "formatNonceCount n" c]
    by (cases "qop ch = Some []") simp_all
next
  assume "createHash (toLowerCase (orElse (algorithm ch) ''MD5'')) = Some h"
  then show "calculateDigestResponse_v2 createHash u p ch n c m uri
      = Inr (if qop ch = Some []
             then h (h (u @ '':'' @ realm ch @ '':'' @ p) @ '':'' @ nonce ch @ '':''
                     @ h (m @ '':'' @ uri))
             else spec_response h u p ch n c m uri)"
    using calculateDigestResponse_v2_result [of createHash ch h u p n c m uri]
      responseBase_spec [of ch h u p m uri n c]
      responseBase_empty_qop [of ch "h (u @ '':'' @ realm ch @ '':'' @ p)"
        "h (m @ '':'' @ uri)" "formatNonceCount n" c]
    by (cases "qop ch = Some []") simp_all
next
  show "parseHex (formatNonceCount n) = n" by (rule parseHex_formatNonceCount)
next
  show "set (formatNonceCount n) \<subseteq> set ''0123456789abcdef''"
    by (rule formatNonceCount_digits)
next
  assume "n < 16 ^ 8"
  then show "length (formatNonceCount n) = 8" by (rule formatNonceCount_length)
next
  show "formatNonceCount 1 = ''00000001''" by (rule formatNonceCount_1)
next
  show "formatNonceCount 255 = ''000000ff''" by (rule formatNonceCount_255)
qed

text \<open>
  The formula at the inputs of the specification's example, with symbolic digests: both
  calculators give the six-term form, and the count 1 is eight digits long.
\<close>

theorem response_formula_witness:
  "snd (calculateDigestResponse_v1 symbolicCrypto ''admin'' ''secret'' exampleChallenge 1
          ''0a4f113b'' ''PUT'' ''/AccessControl/RemoteControl/door/1'')
   = Inr ''md5(md5(admin:example:secret):abc123:00000001:0a4f113b:auth:md5(PUT:/AccessControl/RemoteControl/door/1))''
   \<and> calculateDigestResponse_v2 symbolicCrypto ''admin'' ''secret'' exampleChallenge 1
          ''0a4f113b'' ''PUT'' ''/AccessControl/RemoteControl/door/1''
   = Inr ''md5(md5(admin:example:secret):abc123:00000001:0a4f113b:auth:md5(PUT:/AccessControl/RemoteControl/door/1))''
   \<and> length (formatNonceCount 1) = 8"
  using response_formula [of symbolicCrypto "symbolicHash ''md5''" "''admin''" "''secret''"
      exampleChallenge 1 "''0a4f113b''" "''PUT''" "''/AccessControl/RemoteControl/door/1''"]
  by (simp add: symbolicCrypto_def symbolicHash_def exampleChallenge_def spec_response_def
        toLowerCase_MD5)

text \<open>
  C1 as the specification states it fails where the challenge has a \<open>qop\<close> field that is
  the empty string (the parser yields one for \<open>qop=""\<close>): the field is there, and the
  calculator returns the two-term form, not the six-term form of the specification.
\<close>

theorem response_formula_counterexample:
  "qop (exampleChallenge\<lparr>qop := Some []\<rparr>) \<noteq> None
   \<and> calculateDigestResponse_v2 symbolicCrypto ''admin'' ''secret''
        (exampleChallenge\<lparr>qop := Some []\<rparr>) 1 ''0a4f113b'' ''PUT'' ''/door/1''
     = Inr ''md5(md5(admin:example:secret):abc123:md5(PUT:/door/1))''
   \<and> spec_response (symbolicHash ''md5'') ''admin'' ''secret''
        (exampleChallenge\<lparr>qop := Some []\<rparr>) 1 ''0a4f113b'' ''PUT'' ''/door/1''
     = ''md5(md5(admin:example:secret):abc123:00000001:0a4f113b::md5(PUT:/door/1))''"
  by code_simp

text \<open>
  C2, as the code has it in the second file. The calculator that reads the challenge
  hashes with the algorithm named by the challenge's \<open>algorithm\<close> field, in lower case,
  when the field is present and not the empty string, and with \<open>md5\<close> when the field is
  absent or empty; a name the platform does not know is an error. Which digest function
  is used depends on the challenge, not on a constant.
\<close>

theorem algorithm_selection:
  "calculateDigestResponse_v2 createHash u p ch n c m uri
   = (let name = (if algorithm ch = Some [] then ''MD5'' else spec_algorithm ch) in
      case createHash (toLowerCase name) of
        None \<Rightarrow> Inl (UnsupportedAlgorithm name)
      | Some h \<Rightarrow>
          Inr (h (responseBase ch (h (u @ '':'' @ realm ch @ '':'' @ p)) (h (m @ '':'' @ uri))
                    (formatNonceCount n) c)))"
proof -
  have name: "orElse (algorithm ch) ''MD5''
              = (if algorithm ch = Some [] then ''MD5'' else spec_algorithm ch)"
    by (cases "algorithm ch") (simp_all add: spec_algorithm_def)
  show ?thesis
  proof (cases "createHash (toLowerCase (orElse (algorithm ch) ''MD5''))")
    case None
    from calculateDigestResponse_v2_unsupported [of createHash ch u p n c m uri] None
    show ?thesis unfolding name by (simp add: Let_def)
  next
    case (Some h)
    from calculateDigestResponse_v2_result [of createHash ch h u p n c m uri] Some
    show ?thesis unfolding name by (simp add: Let_def)
  qed
qed

text \<open>
  Two challenges that differ in their algorithm only are hashed by different digest
  functions: \<open>SHA-256\<close> selects \<open>sha-256\<close>, no algorithm selects \<open>md5\<close>.
\<close>

theorem algorithm_selection_witness:
  "calculateDigestResponse_v2 symbolicCrypto ''admin'' ''secret''
     (exampleChallenge\<lparr>qop := None, algorithm := Some ''SHA-256''\<rparr>) 1 ''0a4f113b'' ''PUT''
     ''/door/1''
   = Inr ''sha-256(sha-256(admin:example:secret):abc123:sha-256(PUT:/door/1))''
   \<and> calculateDigestResponse_v2 symbolicCrypto ''admin'' ''secret''
     (exampleChallenge\<lparr>qop := None\<rparr>) 1 ''0a4f113b'' ''PUT'' ''/door/1''
   = Inr ''md5(md5(admin:example:secret):abc123:md5(PUT:/door/1))''"
proof -
  have l: "toLowerCase ''SHA-256'' = ''sha-256''" by code_simp
  show ?thesis
    using algorithm_selection [of symbolicCrypto "''admin''" "''secret''"
        "exampleChallenge\<lparr>qop := None, algorithm := Some ''SHA-256''\<rparr>" 1 "''0a4f113b''"
        "''PUT''" "''/door/1''"]
      algorithm_selection [of symbolicCrypto "''admin''" "''secret''"
        "exampleChallenge\<lparr>qop := None\<rparr>" 1 "''0a4f113b''" "''PUT''" "''/door/1''"]
    by (simp add: l toLowerCase_MD5 symbolicCrypto_def symbolicHash_def exampleChallenge_def
          spec_algorithm_def responseBase_def)
qed

text \<open>
  C2 as the specification states it fails where the challenge has an \<open>algorithm\<close> field
  that is the empty string (the parser yields one for \<open>algorithm=""\<close>): the field is
  there, it names no algorithm the platform knows, and the calculator hashes with \<open>md5\<close>.
\<close>

theorem algorithm_selection_counterexample:
  "algorithm (exampleChallenge\<lparr>qop := None, algorithm := Some []\<rparr>) \<noteq> None
   \<and> symbolicCrypto
        (toLowerCase (spec_algorithm (exampleChallenge\<lparr>qop := None, algorithm := Some []\<rparr>)))
     = None
   \<and> calculateDigestResponse_v2 symbolicCrypto ''admin'' ''secret''
        (exampleChallenge\<lparr>qop := None, algorithm := Some []\<rparr>) 1 ''0a4f113b'' ''PUT''
        ''/door/1''
     = Inr ''md5(md5(admin:example:secret):abc123:md5(PUT:/door/1))''"
  by code_simp

text \<open>
  The calculator of the first file never reads the challenge's algorithm: whatever the
  field holds, the response is the one for a challenge without the field.
\<close>

lemma calculateDigestResponse_v1_ignores_algorithm:
  "snd (calculateDigestResponse_v1 createHash u p (ch\<lparr>algorithm := a\<rparr>) n c m uri)
   = snd (calculateDigestResponse_v1 createHash u p ch n c m uri)"
  by (cases "createHash ''md5''")
     (simp_all add: calculateDigestResponse_v1_def toLowerCase_MD5 Let_def responseBase_def)

lemma calculateDigestResponse_v1_sha256_example:
  "snd (calculateDigestResponse_v1 symbolicCrypto ''admin'' ''secret''
          (exampleChallenge\<lparr>qop := None, algorithm := Some ''SHA-256''\<rparr>) 1 ''0a4f113b''
          ''PUT'' ''/door/1'')
   = Inr ''md5(md5(admin:example:secret):abc123:md5(PUT:/door/1))''"
  by code_simp

text \<open>
  C10. For a challenge without an \<open>algorithm\<close> field, the calculator that hardcodes MD5
  and the calculator that reads the challenge return the same response (or fail with the
  same error, when the platform has no \<open>md5\<close>), for every username, password, nonce count,
  cnonce, method and uri.
\<close>

theorem same_response_without_algorithm:
  "algorithm ch = None \<Longrightarrow>
   snd (calculateDigestResponse_v1 createHash u p ch n c m uri)
   = calculateDigestResponse_v2 createHash u p ch n c m uri"
  by (cases "createHash ''md5''")
     (simp_all add: calculateDigestResponse_v1_def calculateDigestResponse_v2_def
        toLowerCase_MD5 Let_def)

theorem same_response_without_algorithm_witness:
  "algorithm exampleChallenge = None
   \<and> snd (calculateDigestResponse_v1 symbolicCrypto ''admin'' ''secret'' exampleChallenge 1
            ''0a4f113b'' ''PUT'' ''/AccessControl/RemoteControl/door/1'')
     = calculateDigestResponse_v2 symbolicCrypto ''admin'' ''secret'' exampleChallenge 1
         ''0a4f113b'' ''PUT'' ''/AccessControl/RemoteControl/door/1''"
  using same_response_without_algorithm [of exampleChallenge symbolicCrypto "''admin''"
      "''secret''" 1 "''0a4f113b''" "''PUT''" "''/AccessControl/RemoteControl/door/1''"]
  by (simp add: exampleChallenge_def)

section \<open>The client: what one call does\<close>

lemma acquire_v2_reuse:
  "cachedChallenge st = Some ch \<Longrightarrow> nc st \<le> 9999 \<Longrightarrow>
   acquire_v2 probe st cfg = (st\<lparr>nc := nc st + 1\<rparr>, [], None)"
  by (simp add: acquire_v2_def)

lemma acquire_v1_reuse:
  "cachedChallenge st = Some ch \<Longrightarrow> nc st \<le> 99 \<Longrightarrow>
   acquire_v1 probe st cfg = (st\<lparr>nc := nc st + 1\<rparr>, [], None)"
  by (simp add: acquire_v1_def)

lemma acquire_v2_refresh:
  assumes "cachedChallenge st = None \<or> nc st > 9999"
  shows "acquire_v2 probe st cfg =
     (case probe of
        NoResponse \<Rightarrow> (st, probeLines cfg, Some NetworkFailure)
      | Response status header \<Rightarrow>
          if status \<noteq> 401 then (st, probeLines cfg, Some (ProbeFailed status))
          else if \<not> truthy header then (st, probeLines cfg, Some MissingAuthHeader)
          else if \<not> includesStr (toLowerCase (orElse header [])) ''digest ''
          then (st, probeLines cfg, Some (UnsupportedScheme (orElse header [])))
          else if realm (parseDigestChallenge (orElse header [])) = []
                  \<or> nonce (parseDigestChallenge (orElse header [])) = []
          then (st\<lparr>cachedChallenge := Some (parseDigestChallenge (orElse header []))\<rparr>,
                probeLines cfg @ [parsedLine (parseDigestChallenge (orElse header []))],
                Some (InvalidChallenge (parseDigestChallenge (orElse header []))))
          else (\<lparr>nc = 1, cachedChallenge = Some (parseDigestChallenge (orElse header []))\<rparr>,
                probeLines cfg @ [parsedLine (parseDigestChallenge (orElse header []))],
                None))"
  using assms
  by (auto simp: acquire_v2_def probeLines_def parsedLine_def Let_def split: outcome.splits)

lemma acquire_v1_refresh:
  assumes "cachedChallenge st = None \<or> nc st > 99"
  shows "acquire_v1 probe st cfg =
     (case probe of
        NoResponse \<Rightarrow> (st, probeLines cfg, Some NetworkFailure)
      | Response status header \<Rightarrow>
          if status \<noteq> 401 then (st, probeLines cfg, Some (ProbeFailed status))
          else if \<not> truthy header then (st, probeLines cfg, Some MissingAuthHeader)
          else if \<not> includesStr (toLowerCase (orElse header [])) ''digest ''
          then (st, probeLines cfg, Some (UnsupportedScheme (orElse header [])))
          else if realm (parseDigestChallenge (digestPart (orElse header []))) = []
                  \<or> nonce (parseDigestChallenge (digestPart (orElse header []))) = []
          then (st\<lparr>cachedChallenge :=
                      Some (parseDigestChallenge (digestPart (orElse header [])))\<rparr>,
                probeLines cfg
                  @ [parsedLine (parseDigestChallenge (digestPart (orElse header [])))],
                Some (InvalidChallenge (parseDigestChallenge (digestPart (orElse header [])))))
          else (\<lparr>nc = 1,
                 cachedChallenge = Some (parseDigestChallenge (digestPart (orElse header [])))\<rparr>,
                probeLines cfg
                  @ [parsedLine (parseDigestChallenge (digestPart (orElse header [])))],
                None))"
  using assms
  by (auto simp: acquire_v1_def probeLines_def parsedLine_def Let_def split: outcome.splits)

lemma acquire_v2_success_cached:
  "acquire_v2 probe st cfg = (st1, ev1, None) \<Longrightarrow> cachedChallenge st1 \<noteq> None"
  by (auto simp: acquire_v2_def Let_def split: outcome.splits if_splits)

lemma acquire_v1_success_cached:
  "acquire_v1 probe st cfg = (st1, ev1, None) \<Longrightarrow> cachedChallenge st1 \<noteq> None"
  by (auto simp: acquire_v1_def Let_def split: outcome.splits if_splits)

lemma requestInterceptor_v2_failed:
  "acquire_v2 probe st cfg = (st1, ev1, Some e) \<Longrightarrow>
   requestInterceptor_v2 cH newURL config probe c st cfg = rethrow st1 ev1 e"
  by (simp add: requestInterceptor_v2_def)

lemma requestInterceptor_v1_failed:
  "acquire_v1 probe st cfg = (st1, ev1, Some e) \<Longrightarrow>
   requestInterceptor_v1 cH newURL config probe c st cfg = rethrow st1 ev1 e"
  by (simp add: requestInterceptor_v1_def)

lemma requestInterceptor_v2_acquired:
  assumes "acquire_v2 probe st cfg = (st1, ev1, None)" and "cachedChallenge st1 = Some ch"
  shows "requestInterceptor_v2 cH newURL config probe c st cfg =
     (case calculateDigestResponse_v2 cH (username config) (password config) ch (nc st1) c
             (orElse (map_option toUpperCase (cfg_method cfg)) ''GET'')
             (fst (requestUri_v2 newURL cfg)) of
        Inl e \<Rightarrow> rethrow st1 (ev1 @ snd (requestUri_v2 newURL cfg)) e
      | Inr digestResponse \<Rightarrow>
          (st1,
           ev1 @ snd (requestUri_v2 newURL cfg)
             @ [Console ''log'' ''Using auth header:''
                  [Text (authValue_v2 (username config) ch (fst (requestUri_v2 newURL cfg))
                           digestResponse (formatNonceCount (nc st1)) c)]],
           Inr (cfg\<lparr>cfg_authorization :=
                      Some (authValue_v2 (username config) ch (fst (requestUri_v2 newURL cfg))
                              digestResponse (formatNonceCount (nc st1)) c)\<rparr>)))"
  using assms
  by (simp add: requestInterceptor_v2_def Let_def split: prod.splits sum.splits)

lemma requestInterceptor_v1_acquired:
  assumes "acquire_v1 probe st cfg = (st1, ev1, None)" and "cachedChallenge st1 = Some ch"
  shows "requestInterceptor_v1 cH newURL config probe c st cfg =
     (case calculateDigestResponse_v1 cH (username config) (password config) ch (nc st1) c
             (orElse (map_option toUpperCase (cfg_method cfg)) ''GET'')
             (requestUri_v1 newURL cfg) of
        (ev2, Inl e) \<Rightarrow> rethrow st1 (ev1 @ ev2) e
      | (ev2, Inr digestResponse) \<Rightarrow>
          (st1,
           ev1 @ ev2
             @ [Console ''log'' ''Using auth header:''
                  [Text (authValue_v1 (username config) ch (requestUri_v1 newURL cfg)
                           digestResponse (formatNonceCount (nc st1)) c)]],
           Inr (cfg\<lparr>cfg_authorization :=
                      Some (authValue_v1 (username config) ch (requestUri_v1 newURL cfg)
                              digestResponse (formatNonceCount (nc st1)) c)\<rparr>)))"
  using assms
  by (simp add: requestInterceptor_v1_def Let_def split: prod.splits sum.splits)

lemma requestInterceptor_v2_state:
  "fst (requestInterceptor_v2 cH newURL config probe c st cfg) = fst (acquire_v2 probe st cfg)"
  by (auto simp: requestInterceptor_v2_def rethrow_def Let_def
        split: prod.splits option.splits sum.splits)

lemma requestInterceptor_v1_state:
  "fst (requestInterceptor_v1 cH newURL config probe c st cfg) = fst (acquire_v1 probe st cfg)"
  by (auto simp: requestInterceptor_v1_def rethrow_def Let_def
        split: prod.splits option.splits sum.splits)

text \<open>Probes and forwarded requests among the things a call did.\<close>

lemma calc_v1_console:
  "filter isProbe (fst (calculateDigestResponse_v1 cH u p ch n c m uri)) = []
   \<and> filter isSend (fst (calculateDigestResponse_v1 cH u p ch n c m uri)) = []"
  by (simp add: calculateDigestResponse_v1_def Let_def split: option.splits)

lemma requestUri_v2_console:
  "filter isProbe (snd (requestUri_v2 newURL cfg)) = []
   \<and> filter isSend (snd (requestUri_v2 newURL cfg)) = []"
  by (simp add: requestUri_v2_def Let_def split: option.splits)

lemma acquire_v2_probes:
  "filter isProbe (fst (snd (acquire_v2 probe st cfg)))
   = (if cachedChallenge st = None \<or> nc st > 9999
      then [Probe (cfg_method cfg) (cfg_url cfg) (cfg_baseURL cfg)] else [])
   \<and> filter isSend (fst (snd (acquire_v2 probe st cfg))) = []"
  by (auto simp: acquire_v2_def Let_def split: outcome.splits)

lemma acquire_v1_probes:
  "filter isProbe (fst (snd (acquire_v1 probe st cfg)))
   = (if cachedChallenge st = None \<or> nc st > 99
      then [Probe (cfg_method cfg) (cfg_url cfg) (cfg_baseURL cfg)] else [])
   \<and> filter isSend (fst (snd (acquire_v1 probe st cfg))) = []"
  by (auto simp: acquire_v1_def Let_def split: outcome.splits)

lemma requestInterceptor_v2_events:
  "\<exists>tail. fst (snd (requestInterceptor_v2 cH newURL config probe c st cfg))
           = fst (snd (acquire_v2 probe st cfg)) @ tail
         \<and> filter isProbe tail = [] \<and> filter isSend tail = []"
proof (cases "acquire_v2 probe st cfg")
  case (fields st1 ev1 err)
  show ?thesis
  proof (cases err)
    case (Some e)
    with fields show ?thesis
      by (simp add: requestInterceptor_v2_failed rethrow_def)
  next
    case None
    with fields acquire_v2_success_cached [of probe st cfg st1 ev1]
    obtain ch where ch: "cachedChallenge st1 = Some ch" by auto
    from None fields have a: "acquire_v2 probe st cfg = (st1, ev1, None)" by simp
    show ?thesis
      using requestUri_v2_console [of newURL cfg]
      by (simp add: requestInterceptor_v2_acquired [OF a ch] a rethrow_def split: sum.splits)
  qed
qed

lemma requestInterceptor_v1_events:
  "\<exists>tail. fst (snd (requestInterceptor_v1 cH newURL config probe c st cfg))
           = fst (snd (acquire_v1 probe st cfg)) @ tail
         \<and> filter isProbe tail = [] \<and> filter isSend tail = []"
proof (cases "acquire_v1 probe st cfg")
  case (fields st1 ev1 err)
  show ?thesis
  proof (cases err)
    case (Some e)
    with fields show ?thesis
      by (simp add: requestInterceptor_v1_failed rethrow_def)
  next
    case None
    with fields acquire_v1_success_cached [of probe st cfg st1 ev1]
    obtain ch where ch: "cachedChallenge st1 = Some ch" by auto
    from None fields have a: "acquire_v1 probe st cfg = (st1, ev1, None)" by simp
    show ?thesis
      using calc_v1_console [of cH "username config" "password config" ch "nc st1" c
          "orElse (map_option toUpperCase (cfg_method cfg)) ''GET''" "requestUri_v1 newURL cfg"]
      by (auto simp: requestInterceptor_v1_acquired [OF a ch] a rethrow_def split: sum.splits prod.splits)
  qed
qed

lemma requestInterceptor_v2_probes:
  "filter isProbe (fst (snd (requestInterceptor_v2 cH newURL config probe c st cfg)))
   = (if cachedChallenge st = None \<or> nc st > 9999
      then [Probe (cfg_method cfg) (cfg_url cfg) (cfg_baseURL cfg)] else [])
   \<and> filter isSend (fst (snd (requestInterceptor_v2 cH newURL config probe c st cfg))) = []"
proof -
  from requestInterceptor_v2_events [of cH newURL config probe c st cfg]
  obtain tail where "fst (snd (requestInterceptor_v2 cH newURL config probe c st cfg))
           = fst (snd (acquire_v2 probe st cfg)) @ tail"
         "filter isProbe tail = []" "filter isSend tail = []" by blast
  with acquire_v2_probes [of probe st cfg] show ?thesis by simp
qed

lemma requestInterceptor_v1_probes:
  "filter isProbe (fst (snd (requestInterceptor_v1 cH newURL config probe c st cfg)))
   = (if cachedChallenge st = None \<or> nc st > 99
      then [Probe (cfg_method cfg) (cfg_url cfg) (cfg_baseURL cfg)] else [])
   \<and> filter isSend (fst (snd (requestInterceptor_v1 cH newURL config probe c st cfg))) = []"
proof -
  from requestInterceptor_v1_events [of cH newURL config probe c st cfg]
  obtain tail where "fst (snd (requestInterceptor_v1 cH newURL config probe c st cfg))
           = fst (snd (acquire_v1 probe st cfg)) @ tail"
         "filter isProbe tail = []" "filter isSend tail = []" by blast
  with acquire_v1_probes [of probe st cfg] show ?thesis by simp
qed

text \<open>The state a call leaves.\<close>

lemma requestInterceptor_v2_fresh:
  assumes "cachedChallenge st = None \<or> nc st > 9999"
    and "h \<noteq> []" "includesStr (toLowerCase h) ''digest ''"
    and "realm (parseDigestChallenge h) \<noteq> []" "nonce (parseDigestChallenge h) \<noteq> []"
  shows "fst (requestInterceptor_v2 cH newURL config (Response 401 (Some h)) c st cfg)
         = \<lparr>nc = 1, cachedChallenge = Some (parseDigestChallenge h)\<rparr>"
  using assms by (simp add: requestInterceptor_v2_state acquire_v2_refresh)

lemma requestInterceptor_v1_fresh:
  assumes "cachedChallenge st = None \<or> nc st > 99"
    and "h \<noteq> []" "includesStr (toLowerCase h) ''digest ''"
    and "realm (parseDigestChallenge (digestPart h)) \<noteq> []"
        "nonce (parseDigestChallenge (digestPart h)) \<noteq> []"
  shows "fst (requestInterceptor_v1 cH newURL config (Response 401 (Some h)) c st cfg)
         = \<lparr>nc = 1, cachedChallenge = Some (parseDigestChallenge (digestPart h))\<rparr>"
  using assms by (simp add: requestInterceptor_v1_state acquire_v1_refresh)

lemma requestInterceptor_v2_reused:
  assumes "cachedChallenge st = Some ch" "nc st \<le> 9999"
  shows "fst (requestInterceptor_v2 cH newURL config probe c st cfg)
         = \<lparr>nc = nc st + 1, cachedChallenge = Some ch\<rparr>"
  using assms by (simp add: requestInterceptor_v2_state acquire_v2_reuse)

lemma requestInterceptor_v1_reused:
  assumes "cachedChallenge st = Some ch" "nc st \<le> 99"
  shows "fst (requestInterceptor_v1 cH newURL config probe c st cfg)
         = \<lparr>nc = nc st + 1, cachedChallenge = Some ch\<rparr>"
  using assms by (simp add: requestInterceptor_v1_state acquire_v1_reuse)

lemma acquire_v2_refreshed_success:
  assumes "cachedChallenge st = None \<or> nc st > 9999"
    and "snd (snd (acquire_v2 probe st cfg)) = None"
  shows "\<exists>h. probe = Response 401 (Some h)
           \<and> fst (acquire_v2 probe st cfg)
             = \<lparr>nc = 1, cachedChallenge = Some (parseDigestChallenge h)\<rparr>"
proof (cases probe)
  case NoResponse
  with assms show ?thesis by (simp add: acquire_v2_refresh)
next
  case (Response status header)
  with assms show ?thesis
    by (cases header) (auto simp: acquire_v2_refresh split: if_splits)
qed

lemma acquire_v1_refreshed_success:
  assumes "cachedChallenge st = None \<or> nc st > 99"
    and "snd (snd (acquire_v1 probe st cfg)) = None"
  shows "\<exists>h. probe = Response 401 (Some h)
           \<and> fst (acquire_v1 probe st cfg)
             = \<lparr>nc = 1, cachedChallenge = Some (parseDigestChallenge (digestPart h))\<rparr>"
proof (cases probe)
  case NoResponse
  with assms show ?thesis by (simp add: acquire_v1_refresh)
next
  case (Response status header)
  with assms show ?thesis
    by (cases header) (auto simp: acquire_v1_refresh split: if_splits)
qed

lemma requestInterceptor_v2_sent:
  "snd (snd (requestInterceptor_v2 cH newURL config probe c st cfg)) = Inr a \<Longrightarrow>
   snd (snd (acquire_v2 probe st cfg)) = None"
  by (cases "acquire_v2 probe st cfg"; cases "snd (snd (acquire_v2 probe st cfg))")
     (auto simp: requestInterceptor_v2_failed rethrow_def)

lemma requestInterceptor_v1_sent:
  "snd (snd (requestInterceptor_v1 cH newURL config probe c st cfg)) = Inr a \<Longrightarrow>
   snd (snd (acquire_v1 probe st cfg)) = None"
  by (cases "acquire_v1 probe st cfg"; cases "snd (snd (acquire_v1 probe st cfg))")
     (auto simp: requestInterceptor_v1_failed rethrow_def)

text \<open>The example header and its challenge.\<close>

lemma exampleHeader_digest: "exampleHeader \<noteq> [] \<and> includesStr (toLowerCase exampleHeader) ''digest ''"
  by code_simp

lemma exampleHeader_parsed: "parseDigestChallenge exampleHeader = exampleChallenge"
  by code_simp

lemma exampleHeader_part_parsed: "parseDigestChallenge (digestPart exampleHeader) = exampleChallenge"
  by code_simp

section \<open>The challenge cache as a state machine\<close>

text \<open>
  C3. The two variables \<open>cachedChallenge\<close> and \<open>nc\<close> are the cache: \<open>None\<close> is Empty,
  \<open>Some challenge\<close> with \<open>nc\<close> is Active. In both files (the ceiling is 9999 in the second,
  99 in the first):
  \<^item> from Empty, an acquisition that succeeds (the probe answers 401 with a header that
    passes the three checks) leaves Active with the parsed challenge and \<open>nc = 1\<close>;
  \<^item> in Active with \<open>nc\<close> not above the ceiling, a request sends no probe, keeps the
    challenge and leaves \<open>nc\<close> one higher;
  \<^item> in Active with \<open>nc\<close> above the ceiling, the request sends exactly one probe; an
    acquisition that succeeds leaves the challenge of the probe's answer with \<open>nc = 1\<close>, and
    the request is only ever authenticated with that new challenge.
\<close>

theorem cache_state_machine:
  "(cachedChallenge st = None \<and> h \<noteq> [] \<and> includesStr (toLowerCase h) ''digest ''
      \<and> realm (parseDigestChallenge h) \<noteq> [] \<and> nonce (parseDigestChallenge h) \<noteq> [] \<longrightarrow>
      fst (requestInterceptor_v2 cH newURL config (Response 401 (Some h)) c st cfg)
      = \<lparr>nc = 1, cachedChallenge = Some (parseDigestChallenge h)\<rparr>)
   \<and> (cachedChallenge st = Some ch \<and> nc st \<le> 9999 \<longrightarrow>
      fst (requestInterceptor_v2 cH newURL config probe c st cfg)
      = \<lparr>nc = nc st + 1, cachedChallenge = Some ch\<rparr>
      \<and> filter isProbe (fst (snd (requestInterceptor_v2 cH newURL config probe c st cfg))) = [])
   \<and> (cachedChallenge st = Some ch \<and> nc st > 9999 \<longrightarrow>
      filter isProbe (fst (snd (requestInterceptor_v2 cH newURL config probe c st cfg)))
      = [Probe (cfg_method cfg) (cfg_url cfg) (cfg_baseURL cfg)]
      \<and> (h \<noteq> [] \<and> includesStr (toLowerCase h) ''digest ''
          \<and> realm (parseDigestChallenge h) \<noteq> [] \<and> nonce (parseDigestChallenge h) \<noteq> [] \<longrightarrow>
          fst (requestInterceptor_v2 cH newURL config (Response 401 (Some h)) c st cfg)
          = \<lparr>nc = 1, cachedChallenge = Some (parseDigestChallenge h)\<rparr>)
      \<and> (\<forall>a. snd (snd (requestInterceptor_v2 cH newURL config probe c st cfg)) = Inr a \<longrightarrow>
            (\<exists>h'. probe = Response 401 (Some h')
               \<and> fst (requestInterceptor_v2 cH newURL config probe c st cfg)
                 = \<lparr>nc = 1, cachedChallenge = Some (parseDigestChallenge h')\<rparr>)))
   \<and> (cachedChallenge st = None \<and> h \<noteq> [] \<and> includesStr (toLowerCase h) ''digest ''
      \<and> realm (parseDigestChallenge (digestPart h)) \<noteq> []
      \<and> nonce (parseDigestChallenge (digestPart h)) \<noteq> [] \<longrightarrow>
      fst (requestInterceptor_v1 cH newURL config (Response 401 (Some h)) c st cfg)
      = \<lparr>nc = 1, cachedChallenge = Some (parseDigestChallenge (digestPart h))\<rparr>)
   \<and> (cachedChallenge st = Some ch \<and> nc st \<le> 99 \<longrightarrow>
      fst (requestInterceptor_v1 cH newURL config probe c st cfg)
      = \<lparr>nc = nc st + 1, cachedChallenge = Some ch\<rparr>
      \<and> filter isProbe (fst (snd (requestInterceptor_v1 cH newURL config probe c st cfg))) = [])
   \<and> (cachedChallenge st = Some ch \<and> nc st > 99 \<longrightarrow>
      filter isProbe (fst (snd (requestInterceptor_v1 cH newURL config probe c st cfg)))
      = [Probe (cfg_method cfg) (cfg_url cfg) (cfg_baseURL cfg)]
      \<and> (h \<noteq> [] \<and> includesStr (toLowerCase h) ''digest ''
          \<and> realm (parseDigestChallenge (digestPart h)) \<noteq> []
          \<and> nonce (parseDigestChallenge (digestPart h)) \<noteq> [] \<longrightarrow>
          fst (requestInterceptor_v1 cH newURL config (Response 401 (Some h)) c st cfg)
          = \<lparr>nc = 1, cachedChallenge = Some (parseDigestChallenge (digestPart h))\<rparr>)
      \<and> (\<forall>a. snd (snd (requestInterceptor_v1 cH newURL config probe c st cfg)) = Inr a \<longrightarrow>
            (\<exists>h'. probe = Response 401 (Some h')
               \<and> fst (requestInterceptor_v1 cH newURL config probe c st cfg)
                 = \<lparr>nc = 1, cachedChallenge = Some (parseDigestChallenge (digestPart h'))\<rparr>)))"
proof -
  have fresh2: "fst (requestInterceptor_v2 cH newURL config (Response 401 (Some h)) c st cfg)
      = \<lparr>nc = 1, cachedChallenge = Some (parseDigestChallenge h)\<rparr>"
    if "cachedChallenge st = None \<or> nc st > 9999" "h \<noteq> []"
      "includesStr (toLowerCase h) ''digest ''"
      "realm (parseDigestChallenge h) \<noteq> []" "nonce (parseDigestChallenge h) \<noteq> []"
    using that by (rule requestInterceptor_v2_fresh)
  have fresh1: "fst (requestInterceptor_v1 cH newURL config (Response 401 (Some h)) c st cfg)
      = \<lparr>nc = 1, cachedChallenge = Some (parseDigestChallenge (digestPart h))\<rparr>"
    if "cachedChallenge st = None \<or> nc st > 99" "h \<noteq> []"
      "includesStr (toLowerCase h) ''digest ''"
      "realm (parseDigestChallenge (digestPart h)) \<noteq> []"
      "nonce (parseDigestChallenge (digestPart h)) \<noteq> []"
    using that by (rule requestInterceptor_v1_fresh)
  have sent2: "\<exists>h'. probe = Response 401 (Some h')
               \<and> fst (requestInterceptor_v2 cH newURL config probe c st cfg)
                 = \<lparr>nc = 1, cachedChallenge = Some (parseDigestChallenge h')\<rparr>"
    if "nc st > 9999" "snd (snd (requestInterceptor_v2 cH newURL config probe c st cfg)) = Inr a"
    for a
    using that requestInterceptor_v2_sent [of cH newURL config probe c st cfg a]
      acquire_v2_refreshed_success [of st probe cfg]
    by (simp add: requestInterceptor_v2_state)
  have sent1: "\<exists>h'. probe = Response 401 (Some h')
               \<and> fst (requestInterceptor_v1 cH newURL config probe c st cfg)
                 = \<lparr>nc = 1, cachedChallenge = Some (parseDigestChallenge (digestPart h'))\<rparr>"
    if "nc st > 99" "snd (snd (requestInterceptor_v1 cH newURL config probe c st cfg)) = Inr a"
    for a
    using that requestInterceptor_v1_sent [of cH newURL config probe c st cfg a]
      acquire_v1_refreshed_success [of st probe cfg]
    by (simp add: requestInterceptor_v1_state)
  show ?thesis
    using fresh2 fresh1 sent2 sent1
      requestInterceptor_v2_reused [of st ch cH newURL config probe c cfg]
      requestInterceptor_v1_reused [of st ch cH newURL config probe c cfg]
      requestInterceptor_v2_probes [of cH newURL config probe c st cfg]
      requestInterceptor_v1_probes [of cH newURL config probe c st cfg]
    by (intro conjI impI allI) (elim conjE, (simp; fail | blast))+
qed


text \<open>
  The three transitions on the example: from Empty to \<open>nc = 1\<close>, from \<open>nc = 1\<close> to
  \<open>nc = 2\<close> without a probe's answer, and from \<open>nc = 10000\<close> with an old nonce to the
  challenge of the probe with \<open>nc = 1\<close>.
\<close>

theorem cache_state_machine_witness:
  "fst (requestInterceptor_v2 symbolicCrypto exampleURL exampleConfig
          (Response 401 (Some exampleHeader)) ''0a4f113b'' initialState exampleRequest)
   = \<lparr>nc = 1, cachedChallenge = Some exampleChallenge\<rparr>
   \<and> fst (requestInterceptor_v2 symbolicCrypto exampleURL exampleConfig NoResponse ''0a4f113b''
          \<lparr>nc = 1, cachedChallenge = Some exampleChallenge\<rparr> exampleRequest)
   = \<lparr>nc = 2, cachedChallenge = Some exampleChallenge\<rparr>
   \<and> fst (requestInterceptor_v2 symbolicCrypto exampleURL exampleConfig
          (Response 401 (Some exampleHeader)) ''0a4f113b''
          \<lparr>nc = 10000, cachedChallenge = Some (exampleChallenge\<lparr>nonce := ''old''\<rparr>)\<rparr>
          exampleRequest)
   = \<lparr>nc = 1, cachedChallenge = Some exampleChallenge\<rparr>
   \<and> fst (requestInterceptor_v1 symbolicCrypto exampleURL exampleConfig
          (Response 401 (Some exampleHeader)) ''0a4f113b'' initialState exampleRequest)
   = \<lparr>nc = 1, cachedChallenge = Some exampleChallenge\<rparr>
   \<and> fst (requestInterceptor_v1 symbolicCrypto exampleURL exampleConfig NoResponse ''0a4f113b''
          \<lparr>nc = 1, cachedChallenge = Some exampleChallenge\<rparr> exampleRequest)
   = \<lparr>nc = 2, cachedChallenge = Some exampleChallenge\<rparr>
   \<and> fst (requestInterceptor_v1 symbolicCrypto exampleURL exampleConfig
          (Response 401 (Some exampleHeader)) ''0a4f113b''
          \<lparr>nc = 10000, cachedChallenge = Some (exampleChallenge\<lparr>nonce := ''old''\<rparr>)\<rparr>
          exampleRequest)
   = \<lparr>nc = 1, cachedChallenge = Some exampleChallenge\<rparr>"
proof -
  have ex: "realm exampleChallenge \<noteq> [] \<and> nonce exampleChallenge \<noteq> []"
    by (simp add: exampleChallenge_def)
  show ?thesis
    using cache_state_machine [where st = initialState and h = exampleHeader
        and cH = symbolicCrypto and newURL = exampleURL and config = exampleConfig
        and c = "''0a4f113b''" and cfg = exampleRequest]
      cache_state_machine [where st = "\<lparr>nc = 1, cachedChallenge = Some exampleChallenge\<rparr>"
        and ch = exampleChallenge and probe = NoResponse
        and cH = symbolicCrypto and newURL = exampleURL and config = exampleConfig
        and c = "''0a4f113b''" and cfg = exampleRequest]
      cache_state_machine [where st = "\<lparr>nc = 10000,
          cachedChallenge = Some (exampleChallenge\<lparr>nonce := ''old''\<rparr>)\<rparr>"
        and ch = "exampleChallenge\<lparr>nonce := ''old''\<rparr>" and h = exampleHeader
        and cH = symbolicCrypto and newURL = exampleURL and config = exampleConfig
        and c = "''0a4f113b''" and cfg = exampleRequest]
      ex exampleHeader_digest
    by (simp add: initialState_def exampleHeader_parsed exampleHeader_part_parsed)
qed

section \<open>A 401 for an authenticated request\<close>

lemma acquire_v2_starts:
  "cachedChallenge st = None \<or> nc st > 9999 \<Longrightarrow>
   \<exists>rest. fst (snd (acquire_v2 probe st cfg)) = probeLines cfg @ rest"
  by (cases probe) (auto simp: acquire_v2_refresh)

lemma acquire_v1_starts:
  "cachedChallenge st = None \<or> nc st > 99 \<Longrightarrow>
   \<exists>rest. fst (snd (acquire_v1 probe st cfg)) = probeLines cfg @ rest"
  by (cases probe) (auto simp: acquire_v1_refresh)

lemma responseRejected_events:
  "filter isProbe (fst (snd (responseRejected st err))) = []
   \<and> filter isSend (fst (snd (responseRejected st err))) = []"
  by (simp add: responseRejected_def)

lemma perform_v2_events:
  "\<exists>tail. fst (snd (perform_v2 cH newURL config probe c reply st cfg))
           = fst (snd (requestInterceptor_v2 cH newURL config probe c st cfg)) @ tail
         \<and> filter isProbe tail = []"
  by (auto simp: perform_v2_def dispatch_def responseRejected_def
        split: prod.splits sum.splits outcome.splits)

lemma perform_v1_events:
  "\<exists>tail. fst (snd (perform_v1 cH newURL config probe c reply st cfg))
           = fst (snd (requestInterceptor_v1 cH newURL config probe c st cfg)) @ tail
         \<and> filter isProbe tail = []"
  by (auto simp: perform_v1_def dispatch_def responseRejected_def
        split: prod.splits sum.splits outcome.splits)

lemma perform_v2_from_empty:
  assumes "cachedChallenge st = None"
  shows "filter isProbe (fst (snd (perform_v2 cH newURL config probe c reply st cfg)))
         = [Probe (cfg_method cfg) (cfg_url cfg) (cfg_baseURL cfg)]
       \<and> (\<exists>rest. fst (snd (perform_v2 cH newURL config probe c reply st cfg))
                  = probeLines cfg @ rest)"
proof -
  from perform_v2_events [of cH newURL config probe c reply st cfg]
  obtain t1 where t1: "fst (snd (perform_v2 cH newURL config probe c reply st cfg))
      = fst (snd (requestInterceptor_v2 cH newURL config probe c st cfg)) @ t1"
    "filter isProbe t1 = []" by blast
  from requestInterceptor_v2_events [of cH newURL config probe c st cfg]
  obtain t2 where t2: "fst (snd (requestInterceptor_v2 cH newURL config probe c st cfg))
      = fst (snd (acquire_v2 probe st cfg)) @ t2" by blast
  from assms acquire_v2_starts [of st probe cfg]
  obtain t3 where t3: "fst (snd (acquire_v2 probe st cfg)) = probeLines cfg @ t3" by blast
  from assms requestInterceptor_v2_probes [of cH newURL config probe c st cfg] t1
  have "filter isProbe (fst (snd (perform_v2 cH newURL config probe c reply st cfg)))
         = [Probe (cfg_method cfg) (cfg_url cfg) (cfg_baseURL cfg)]" by simp
  moreover from t1 t2 t3
  have "fst (snd (perform_v2 cH newURL config probe c reply st cfg))
        = probeLines cfg @ (t3 @ t2 @ t1)" by simp
  ultimately show ?thesis by blast
qed

lemma perform_v1_from_empty:
  assumes "cachedChallenge st = None"
  shows "filter isProbe (fst (snd (perform_v1 cH newURL config probe c reply st cfg)))
         = [Probe (cfg_method cfg) (cfg_url cfg) (cfg_baseURL cfg)]
       \<and> (\<exists>rest. fst (snd (perform_v1 cH newURL config probe c reply st cfg))
                  = probeLines cfg @ rest)"
proof -
  from perform_v1_events [of cH newURL config probe c reply st cfg]
  obtain t1 where t1: "fst (snd (perform_v1 cH newURL config probe c reply st cfg))
      = fst (snd (requestInterceptor_v1 cH newURL config probe c st cfg)) @ t1"
    "filter isProbe t1 = []" by blast
  from requestInterceptor_v1_events [of cH newURL config probe c st cfg]
  obtain t2 where t2: "fst (snd (requestInterceptor_v1 cH newURL config probe c st cfg))
      = fst (snd (acquire_v1 probe st cfg)) @ t2" by blast
  from assms acquire_v1_starts [of st probe cfg]
  obtain t3 where t3: "fst (snd (acquire_v1 probe st cfg)) = probeLines cfg @ t3" by blast
  from assms requestInterceptor_v1_probes [of cH newURL config probe c st cfg] t1
  have "filter isProbe (fst (snd (perform_v1 cH newURL config probe c reply st cfg)))
         = [Probe (cfg_method cfg) (cfg_url cfg) (cfg_baseURL cfg)]" by simp
  moreover from t1 t2 t3
  have "fst (snd (perform_v1 cH newURL config probe c reply st cfg))
        = probeLines cfg @ (t3 @ t2 @ t1)" by simp
  ultimately show ?thesis by blast
qed

lemma requestInterceptor_v2_sent_cached:
  assumes "requestInterceptor_v2 cH newURL config probe c st cfg = (st1, ev1, Inr a)"
  shows "cachedChallenge st1 \<noteq> None \<and> filter isSend ev1 = []"
proof -
  from assms requestInterceptor_v2_sent [of cH newURL config probe c st cfg a]
  have n: "snd (snd (acquire_v2 probe st cfg)) = None" by simp
  from assms requestInterceptor_v2_state [of cH newURL config probe c st cfg]
  have "fst (acquire_v2 probe st cfg) = st1" by simp
  with n acquire_v2_success_cached [of probe st cfg st1 "fst (snd (acquire_v2 probe st cfg))"]
  have "cachedChallenge st1 \<noteq> None" by (cases "acquire_v2 probe st cfg") auto
  with assms requestInterceptor_v2_probes [of cH newURL config probe c st cfg]
  show ?thesis by simp
qed

lemma requestInterceptor_v1_sent_cached:
  assumes "requestInterceptor_v1 cH newURL config probe c st cfg = (st1, ev1, Inr a)"
  shows "cachedChallenge st1 \<noteq> None \<and> filter isSend ev1 = []"
proof -
  from assms requestInterceptor_v1_sent [of cH newURL config probe c st cfg a]
  have n: "snd (snd (acquire_v1 probe st cfg)) = None" by simp
  from assms requestInterceptor_v1_state [of cH newURL config probe c st cfg]
  have "fst (acquire_v1 probe st cfg) = st1" by simp
  with n acquire_v1_success_cached [of probe st cfg st1 "fst (snd (acquire_v1 probe st cfg))"]
  have "cachedChallenge st1 \<noteq> None" by (cases "acquire_v1 probe st cfg") auto
  with assms requestInterceptor_v1_probes [of cH newURL config probe c st cfg]
  show ?thesis by simp
qed

text \<open>
  C4. When the forwarded request of a call is answered with 401 (the request was
  authenticated, so the cache held a challenge), the call leaves the cache Empty with
  \<open>nc = 0\<close>, rejects with the error of that 401 response, and has forwarded the request
  exactly once: nothing is sent again. The next call, whatever it is, starts by sending
  one probe, and sends no other. The same in both files.
\<close>

theorem invalidation_on_401:
  "(cachedChallenge st \<noteq> None \<longrightarrow>
      responseRejected st (BadStatus 401)
      = (\<lparr>nc = 0, cachedChallenge = None\<rparr>, [clearedLine], Inl (BadStatus 401)))
   \<and> (requestInterceptor_v2 cH newURL config probe c st cfg = (st1, ev1, Inr a) \<longrightarrow>
      perform_v2 cH newURL config probe c (Response 401 header) st cfg
      = (\<lparr>nc = 0, cachedChallenge = None\<rparr>, ev1 @ [Send a, clearedLine], Inl (BadStatus 401))
      \<and> filter isSend (ev1 @ [Send a, clearedLine]) = [Send a])
   \<and> (requestInterceptor_v1 cH newURL config probe c st cfg = (st1, ev1, Inr a) \<longrightarrow>
      perform_v1 cH newURL config probe c (Response 401 header) st cfg
      = (\<lparr>nc = 0, cachedChallenge = None\<rparr>, ev1 @ [Send a, clearedLine], Inl (BadStatus 401))
      \<and> filter isSend (ev1 @ [Send a, clearedLine]) = [Send a])
   \<and> filter isProbe (fst (snd (perform_v2 cH newURL config probe' c' reply
         \<lparr>nc = 0, cachedChallenge = None\<rparr> cfg')))
     = [Probe (cfg_method cfg') (cfg_url cfg') (cfg_baseURL cfg')]
   \<and> (\<exists>rest. fst (snd (perform_v2 cH newURL config probe' c' reply
         \<lparr>nc = 0, cachedChallenge = None\<rparr> cfg')) = probeLines cfg' @ rest)
   \<and> filter isProbe (fst (snd (perform_v1 cH newURL config probe' c' reply
         \<lparr>nc = 0, cachedChallenge = None\<rparr> cfg')))
     = [Probe (cfg_method cfg') (cfg_url cfg') (cfg_baseURL cfg')]
   \<and> (\<exists>rest. fst (snd (perform_v1 cH newURL config probe' c' reply
         \<lparr>nc = 0, cachedChallenge = None\<rparr> cfg')) = probeLines cfg' @ rest)"
proof (intro conjI impI)
  assume "cachedChallenge st \<noteq> None"
  then show "responseRejected st (BadStatus 401)
      = (\<lparr>nc = 0, cachedChallenge = None\<rparr>, [clearedLine], Inl (BadStatus 401))"
    by (simp add: responseRejected_def clearedLine_def)
next
  assume r: "requestInterceptor_v2 cH newURL config probe c st cfg = (st1, ev1, Inr a)"
  from requestInterceptor_v2_sent_cached [OF r]
  have s: "cachedChallenge st1 \<noteq> None" and e: "filter isSend ev1 = []" by simp_all
  from r s show "perform_v2 cH newURL config probe c (Response 401 header) st cfg
      = (\<lparr>nc = 0, cachedChallenge = None\<rparr>, ev1 @ [Send a, clearedLine], Inl (BadStatus 401))"
    by (simp add: perform_v2_def dispatch_def responseRejected_def clearedLine_def)
  from e show "filter isSend (ev1 @ [Send a, clearedLine]) = [Send a]"
    by (simp add: clearedLine_def)
next
  assume r: "requestInterceptor_v1 cH newURL config probe c st cfg = (st1, ev1, Inr a)"
  from requestInterceptor_v1_sent_cached [OF r]
  have s: "cachedChallenge st1 \<noteq> None" and e: "filter isSend ev1 = []" by simp_all
  from r s show "perform_v1 cH newURL config probe c (Response 401 header) st cfg
      = (\<lparr>nc = 0, cachedChallenge = None\<rparr>, ev1 @ [Send a, clearedLine], Inl (BadStatus 401))"
    by (simp add: perform_v1_def dispatch_def responseRejected_def clearedLine_def)
  from e show "filter isSend (ev1 @ [Send a, clearedLine]) = [Send a]"
    by (simp add: clearedLine_def)
next
  show "filter isProbe (fst (snd (perform_v2 cH newURL config probe' c' reply
         \<lparr>nc = 0, cachedChallenge = None\<rparr> cfg')))
     = [Probe (cfg_method cfg') (cfg_url cfg') (cfg_baseURL cfg')]"
    using perform_v2_from_empty [of "\<lparr>nc = 0, cachedChallenge = None\<rparr>"] by simp
next
  show "\<exists>rest. fst (snd (perform_v2 cH newURL config probe' c' reply
         \<lparr>nc = 0, cachedChallenge = None\<rparr> cfg')) = probeLines cfg' @ rest"
    using perform_v2_from_empty [of "\<lparr>nc = 0, cachedChallenge = None\<rparr>"] by simp
next
  show "filter isProbe (fst (snd (perform_v1 cH newURL config probe' c' reply
         \<lparr>nc = 0, cachedChallenge = None\<rparr> cfg')))
     = [Probe (cfg_method cfg') (cfg_url cfg') (cfg_baseURL cfg')]"
    using perform_v1_from_empty [of "\<lparr>nc = 0, cachedChallenge = None\<rparr>"] by simp
next
  show "\<exists>rest. fst (snd (perform_v1 cH newURL config probe' c' reply
         \<lparr>nc = 0, cachedChallenge = None\<rparr> cfg')) = probeLines cfg' @ rest"
    using perform_v1_from_empty [of "\<lparr>nc = 0, cachedChallenge = None\<rparr>"] by simp
qed


lemma example_sent_v2:
  "\<not> isl (snd (snd (requestInterceptor_v2 symbolicCrypto exampleURL exampleConfig
        (Response 401 (Some exampleHeader)) ''0a4f113b'' initialState exampleRequest)))"
  by code_simp

lemma example_sent_v1:
  "\<not> isl (snd (snd (requestInterceptor_v1 symbolicCrypto exampleURL exampleConfig
        (Response 401 (Some exampleHeader)) ''0a4f113b'' initialState exampleRequest)))"
  by code_simp

text \<open>
  On the example: the rejection handler clears an Active cache, and a call whose forwarded
  request is answered with 401 ends Empty, rejected, with one request forwarded.
\<close>

theorem invalidation_on_401_witness:
  "responseRejected \<lparr>nc = 5, cachedChallenge = Some exampleChallenge\<rparr> (BadStatus 401)
   = (\<lparr>nc = 0, cachedChallenge = None\<rparr>, [clearedLine], Inl (BadStatus 401))
   \<and> fst (perform_v2 symbolicCrypto exampleURL exampleConfig (Response 401 (Some exampleHeader))
          ''0a4f113b'' (Response 401 None) initialState exampleRequest)
   = \<lparr>nc = 0, cachedChallenge = None\<rparr>
   \<and> snd (snd (perform_v2 symbolicCrypto exampleURL exampleConfig
          (Response 401 (Some exampleHeader)) ''0a4f113b'' (Response 401 None) initialState
          exampleRequest))
   = Inl (BadStatus 401)
   \<and> length (filter isSend (fst (snd (perform_v2 symbolicCrypto exampleURL exampleConfig
          (Response 401 (Some exampleHeader)) ''0a4f113b'' (Response 401 None) initialState
          exampleRequest)))) = 1
   \<and> fst (perform_v1 symbolicCrypto exampleURL exampleConfig (Response 401 (Some exampleHeader))
          ''0a4f113b'' (Response 401 None) initialState exampleRequest)
   = \<lparr>nc = 0, cachedChallenge = None\<rparr>
   \<and> snd (snd (perform_v1 symbolicCrypto exampleURL exampleConfig
          (Response 401 (Some exampleHeader)) ''0a4f113b'' (Response 401 None) initialState
          exampleRequest))
   = Inl (BadStatus 401)
   \<and> length (filter isSend (fst (snd (perform_v1 symbolicCrypto exampleURL exampleConfig
          (Response 401 (Some exampleHeader)) ''0a4f113b'' (Response 401 None) initialState
          exampleRequest)))) = 1"
proof -
  from example_sent_v2 obtain s2 e2 a2 where
    r2: "requestInterceptor_v2 symbolicCrypto exampleURL exampleConfig
           (Response 401 (Some exampleHeader)) ''0a4f113b'' initialState exampleRequest
         = (s2, e2, Inr a2)"
    by (cases "requestInterceptor_v2 symbolicCrypto exampleURL exampleConfig
           (Response 401 (Some exampleHeader)) ''0a4f113b'' initialState exampleRequest";
        cases "snd (snd (requestInterceptor_v2 symbolicCrypto exampleURL exampleConfig
           (Response 401 (Some exampleHeader)) ''0a4f113b'' initialState exampleRequest))")
       auto
  from example_sent_v1 obtain s1 e1 a1 where
    r1: "requestInterceptor_v1 symbolicCrypto exampleURL exampleConfig
           (Response 401 (Some exampleHeader)) ''0a4f113b'' initialState exampleRequest
         = (s1, e1, Inr a1)"
    by (cases "requestInterceptor_v1 symbolicCrypto exampleURL exampleConfig
           (Response 401 (Some exampleHeader)) ''0a4f113b'' initialState exampleRequest";
        cases "snd (snd (requestInterceptor_v1 symbolicCrypto exampleURL exampleConfig
           (Response 401 (Some exampleHeader)) ''0a4f113b'' initialState exampleRequest))")
       auto
  show ?thesis
    using r2 r1
      invalidation_on_401 [where cH = symbolicCrypto and newURL = exampleURL
        and config = exampleConfig and probe = "Response 401 (Some exampleHeader)"
        and c = "''0a4f113b''" and st = initialState and cfg = exampleRequest
        and ?st1.0 = s2 and ?ev1.0 = e2 and a = a2 and header = None]
      invalidation_on_401 [where cH = symbolicCrypto and newURL = exampleURL
        and config = exampleConfig and probe = "Response 401 (Some exampleHeader)"
        and c = "''0a4f113b''" and st = initialState and cfg = exampleRequest
        and ?st1.0 = s1 and ?ev1.0 = e1 and a = a1 and header = None]
      invalidation_on_401 [where st = "\<lparr>nc = 5, cachedChallenge = Some exampleChallenge\<rparr>"]
    by simp
qed

section \<open>Failures of the probe\<close>

lemma perform_v2_failed:
  "acquire_v2 probe st cfg = (st, ev1, Some e) \<Longrightarrow> responseStatus (Interceptor e) \<noteq> Some 401 \<Longrightarrow>
   perform_v2 cH newURL config probe c reply st cfg
   = (st, ev1 @ [errorLine e], Inl (Interceptor e))"
  by (simp add: perform_v2_def requestInterceptor_v2_failed rethrow_def responseRejected_def
        errorLine_def)

lemma perform_v1_failed:
  "acquire_v1 probe st cfg = (st, ev1, Some e) \<Longrightarrow> responseStatus (Interceptor e) \<noteq> Some 401 \<Longrightarrow>
   perform_v1 cH newURL config probe c reply st cfg
   = (st, ev1 @ [errorLine e], Inl (Interceptor e))"
  by (simp add: perform_v1_def requestInterceptor_v1_failed rethrow_def responseRejected_def
        errorLine_def)

text \<open>
  C7, as the code has it. From an Empty cache a call sends the unauthenticated probe and,
  in both files:
  \<^item> if the probe's status is not 401, the call rejects with ProbeFailed;
  \<^item> if the status is 401 and the \<open>WWW-Authenticate\<close> header is missing or empty, it
    rejects with MissingAuthHeader;
  \<^item> if the header is there and does not contain \<open>digest \<close> (the word and one space, in
    any letter case) anywhere, it rejects with UnsupportedScheme.

  In each case the cache stays as it was and the call did three things only: the line
  announcing the probe, the probe (which carries no headers), and the line reporting the
  error. No request is forwarded, so no \<open>Authorization\<close> header is sent.
\<close>

theorem probe_failures:
  "(cachedChallenge st = None \<and> status \<noteq> 401 \<longrightarrow>
      perform_v2 cH newURL config (Response status header) c reply st cfg
      = (st, probeLines cfg @ [errorLine (ProbeFailed status)],
         Inl (Interceptor (ProbeFailed status)))
      \<and> perform_v1 cH newURL config (Response status header) c reply st cfg
      = (st, probeLines cfg @ [errorLine (ProbeFailed status)],
         Inl (Interceptor (ProbeFailed status))))
   \<and> (cachedChallenge st = None \<and> \<not> truthy header \<longrightarrow>
      perform_v2 cH newURL config (Response 401 header) c reply st cfg
      = (st, probeLines cfg @ [errorLine MissingAuthHeader], Inl (Interceptor MissingAuthHeader))
      \<and> perform_v1 cH newURL config (Response 401 header) c reply st cfg
      = (st, probeLines cfg @ [errorLine MissingAuthHeader], Inl (Interceptor MissingAuthHeader)))
   \<and> (cachedChallenge st = None \<and> h \<noteq> [] \<and> \<not> includesStr (toLowerCase h) ''digest '' \<longrightarrow>
      perform_v2 cH newURL config (Response 401 (Some h)) c reply st cfg
      = (st, probeLines cfg @ [errorLine (UnsupportedScheme h)],
         Inl (Interceptor (UnsupportedScheme h)))
      \<and> perform_v1 cH newURL config (Response 401 (Some h)) c reply st cfg
      = (st, probeLines cfg @ [errorLine (UnsupportedScheme h)],
         Inl (Interceptor (UnsupportedScheme h))))
   \<and> filter isSend (probeLines cfg @ [errorLine e]) = []"
proof (intro conjI impI)
  assume a: "cachedChallenge st = None \<and> status \<noteq> 401"
  then have "acquire_v2 (Response status header) st cfg
             = (st, probeLines cfg, Some (ProbeFailed status))"
    by (simp add: acquire_v2_refresh)
  with a show "perform_v2 cH newURL config (Response status header) c reply st cfg
      = (st, probeLines cfg @ [errorLine (ProbeFailed status)],
         Inl (Interceptor (ProbeFailed status)))"
    by (simp add: perform_v2_failed)
  from a have "acquire_v1 (Response status header) st cfg
             = (st, probeLines cfg, Some (ProbeFailed status))"
    by (simp add: acquire_v1_refresh)
  with a show "perform_v1 cH newURL config (Response status header) c reply st cfg
      = (st, probeLines cfg @ [errorLine (ProbeFailed status)],
         Inl (Interceptor (ProbeFailed status)))"
    by (simp add: perform_v1_failed)
next
  assume a: "cachedChallenge st = None \<and> \<not> truthy header"
  then have "acquire_v2 (Response 401 header) st cfg
             = (st, probeLines cfg, Some MissingAuthHeader)"
    by (simp add: acquire_v2_refresh)
  then show "perform_v2 cH newURL config (Response 401 header) c reply st cfg
      = (st, probeLines cfg @ [errorLine MissingAuthHeader], Inl (Interceptor MissingAuthHeader))"
    by (simp add: perform_v2_failed)
  from a have "acquire_v1 (Response 401 header) st cfg
             = (st, probeLines cfg, Some MissingAuthHeader)"
    by (simp add: acquire_v1_refresh)
  then show "perform_v1 cH newURL config (Response 401 header) c reply st cfg
      = (st, probeLines cfg @ [errorLine MissingAuthHeader], Inl (Interceptor MissingAuthHeader))"
    by (simp add: perform_v1_failed)
next
  assume a: "cachedChallenge st = None \<and> h \<noteq> [] \<and> \<not> includesStr (toLowerCase h) ''digest ''"
  then have "acquire_v2 (Response 401 (Some h)) st cfg
             = (st, probeLines cfg, Some (UnsupportedScheme h))"
    by (simp add: acquire_v2_refresh)
  then show "perform_v2 cH newURL config (Response 401 (Some h)) c reply st cfg
      = (st, probeLines cfg @ [errorLine (UnsupportedScheme h)],
         Inl (Interceptor (UnsupportedScheme h)))"
    by (simp add: perform_v2_failed)
  from a have "acquire_v1 (Response 401 (Some h)) st cfg
             = (st, probeLines cfg, Some (UnsupportedScheme h))"
    by (simp add: acquire_v1_refresh)
  then show "perform_v1 cH newURL config (Response 401 (Some h)) c reply st cfg
      = (st, probeLines cfg @ [errorLine (UnsupportedScheme h)],
         Inl (Interceptor (UnsupportedScheme h)))"
    by (simp add: perform_v1_failed)
next
  show "filter isSend (probeLines cfg @ [errorLine e]) = []"
    by (simp add: probeLines_def errorLine_def)
qed

lemma basicHeader_not_digest:
  "\<not> startsWith (toLowerCase basicHeader) ''digest ''
   \<and> includesStr (toLowerCase basicHeader) ''digest ''"
  by code_simp

text \<open>
  The three failures on the example: a probe answered with 200, a 401 without the header,
  and a 401 with a Basic challenge.
\<close>

theorem probe_failures_witness:
  "perform_v2 symbolicCrypto exampleURL exampleConfig (Response 200 None) ''0a4f113b''
     NoResponse initialState exampleRequest
   = (initialState, probeLines exampleRequest @ [errorLine (ProbeFailed 200)],
      Inl (Interceptor (ProbeFailed 200)))
   \<and> perform_v1 symbolicCrypto exampleURL exampleConfig (Response 401 None) ''0a4f113b''
     NoResponse initialState exampleRequest
   = (initialState, probeLines exampleRequest @ [errorLine MissingAuthHeader],
      Inl (Interceptor MissingAuthHeader))
   \<and> perform_v2 symbolicCrypto exampleURL exampleConfig
     (Response 401 (Some ''Basic realm=x'')) ''0a4f113b'' NoResponse initialState exampleRequest
   = (initialState, probeLines exampleRequest @ [errorLine (UnsupportedScheme ''Basic realm=x'')],
      Inl (Interceptor (UnsupportedScheme ''Basic realm=x'')))"
proof -
  have b: "\<not> includesStr (toLowerCase ''Basic realm=x'') ''digest ''" by code_simp
  show ?thesis
    using probe_failures [where st = initialState and status = 200 and header = None
        and cH = symbolicCrypto and newURL = exampleURL and config = exampleConfig
        and c = "''0a4f113b''" and reply = NoResponse and cfg = exampleRequest
        and h = "''Basic realm=x''"] b
    by (simp add: initialState_def)
qed

text \<open>
  C7 as the specification states it fails for a header that does not identify the Digest
  scheme but contains the word: \<open>Basic realm="digest area", nonce="n"\<close> does not start with
  \<open>digest \<close>, and no call fails with UnsupportedScheme on it. The second file takes the Basic
  challenge for a Digest one, caches it and authenticates the request with it; the first
  file parses what follows the word and fails with InvalidChallenge.
\<close>

theorem probe_failures_counterexample:
  "\<not> startsWith (toLowerCase basicHeader) ''digest ''
   \<and> fst (requestInterceptor_v2 symbolicCrypto exampleURL exampleConfig
        (Response 401 (Some basicHeader)) ''0a4f113b'' initialState exampleRequest)
     = \<lparr>nc = 1,
        cachedChallenge = Some \<lparr>realm = ''digest area'', nonce = ''n'', qop = None,
                                opaque = None, algorithm = None\<rparr>\<rparr>
   \<and> snd (snd (requestInterceptor_v2 symbolicCrypto exampleURL exampleConfig
        (Response 401 (Some basicHeader)) ''0a4f113b'' initialState exampleRequest))
     = Inr (exampleRequest\<lparr>cfg_authorization := Some
         ''Digest username=\"admin\", realm=\"digest area\", nonce=\"n\", uri=\"/AccessControl/RemoteControl/door/1?x=1\", response=\"md5(md5(admin:digest area:secret):n:md5(PUT:/AccessControl/RemoteControl/door/1?x=1))\"''\<rparr>)
   \<and> snd (snd (requestInterceptor_v1 symbolicCrypto exampleURL exampleConfig
        (Response 401 (Some basicHeader)) ''0a4f113b'' initialState exampleRequest))
     = Inl (InvalidChallenge \<lparr>realm = [], nonce = ''n'', qop = None, opaque = None,
                               algorithm = None\<rparr>)"
  by code_simp

section \<open>Invalid challenges\<close>

lemma acquire_v2_invalid:
  "(\<exists>ch. snd (snd (acquire_v2 probe st cfg)) = Some (InvalidChallenge ch))
   = ((cachedChallenge st = None \<or> nc st > 9999)
      \<and> (\<exists>h. probe = Response 401 (Some h) \<and> h \<noteq> []
             \<and> includesStr (toLowerCase h) ''digest ''
             \<and> (realm (parseDigestChallenge h) = [] \<or> nonce (parseDigestChallenge h) = [])))"
proof (cases "cachedChallenge st = None \<or> nc st > 9999")
  case False
  then obtain ch where "cachedChallenge st = Some ch" "nc st \<le> 9999" by auto
  then show ?thesis by (simp add: acquire_v2_reuse)
next
  case True
  show ?thesis
  proof (cases probe)
    case NoResponse
    with True show ?thesis by (simp add: acquire_v2_refresh)
  next
    case (Response status header)
    with True show ?thesis
      by (cases header) (auto simp: acquire_v2_refresh)
  qed
qed

lemma acquire_v1_invalid:
  "(\<exists>ch. snd (snd (acquire_v1 probe st cfg)) = Some (InvalidChallenge ch))
   = ((cachedChallenge st = None \<or> nc st > 99)
      \<and> (\<exists>h. probe = Response 401 (Some h) \<and> h \<noteq> []
             \<and> includesStr (toLowerCase h) ''digest ''
             \<and> (realm (parseDigestChallenge (digestPart h)) = []
                \<or> nonce (parseDigestChallenge (digestPart h)) = [])))"
proof (cases "cachedChallenge st = None \<or> nc st > 99")
  case False
  then obtain ch where "cachedChallenge st = Some ch" "nc st \<le> 99" by auto
  then show ?thesis by (simp add: acquire_v1_reuse)
next
  case True
  show ?thesis
  proof (cases probe)
    case NoResponse
    with True show ?thesis by (simp add: acquire_v1_refresh)
  next
    case (Response status header)
    with True show ?thesis
      by (cases header) (auto simp: acquire_v1_refresh)
  qed
qed

lemma acquire_v2_installed:
  assumes "cachedChallenge st = None \<or> nc st > 9999"
    and "snd (snd (acquire_v2 probe st cfg)) = None"
  shows "\<exists>ch. cachedChallenge (fst (acquire_v2 probe st cfg)) = Some ch
              \<and> realm ch \<noteq> [] \<and> nonce ch \<noteq> []"
proof (cases probe)
  case NoResponse
  with assms show ?thesis by (simp add: acquire_v2_refresh)
next
  case (Response status header)
  with assms show ?thesis
    by (cases header) (auto simp: acquire_v2_refresh split: if_splits)
qed

lemma acquire_v1_installed:
  assumes "cachedChallenge st = None \<or> nc st > 99"
    and "snd (snd (acquire_v1 probe st cfg)) = None"
  shows "\<exists>ch. cachedChallenge (fst (acquire_v1 probe st cfg)) = Some ch
              \<and> realm ch \<noteq> [] \<and> nonce ch \<noteq> []"
proof (cases probe)
  case NoResponse
  with assms show ?thesis by (simp add: acquire_v1_refresh)
next
  case (Response status header)
  with assms show ?thesis
    by (cases header) (auto simp: acquire_v1_refresh split: if_splits)
qed

text \<open>
  C6, as the code has it. In both files the acquisition fails with InvalidChallenge exactly
  when it is attempted (the cache is Empty or \<open>nc\<close> is above the ceiling), the probe answers
  401 with a non-empty header that contains \<open>digest \<close>, and the realm or the nonce of the
  parsed challenge is the empty string. Every challenge with which an acquisition succeeds
  has a realm and a nonce that are not the empty string.
\<close>

theorem invalid_challenge:
  "(\<exists>ch. snd (snd (acquire_v2 probe st cfg)) = Some (InvalidChallenge ch))
   = ((cachedChallenge st = None \<or> nc st > 9999)
      \<and> (\<exists>h. probe = Response 401 (Some h) \<and> h \<noteq> []
             \<and> includesStr (toLowerCase h) ''digest ''
             \<and> (realm (parseDigestChallenge h) = [] \<or> nonce (parseDigestChallenge h) = [])))
   \<and> (\<exists>ch. snd (snd (acquire_v1 probe st cfg)) = Some (InvalidChallenge ch))
   = ((cachedChallenge st = None \<or> nc st > 99)
      \<and> (\<exists>h. probe = Response 401 (Some h) \<and> h \<noteq> []
             \<and> includesStr (toLowerCase h) ''digest ''
             \<and> (realm (parseDigestChallenge (digestPart h)) = []
                \<or> nonce (parseDigestChallenge (digestPart h)) = [])))
   \<and> ((cachedChallenge st = None \<or> nc st > 9999)
       \<and> snd (snd (acquire_v2 probe st cfg)) = None \<longrightarrow>
       (\<exists>ch. cachedChallenge (fst (acquire_v2 probe st cfg)) = Some ch
             \<and> realm ch \<noteq> [] \<and> nonce ch \<noteq> []))
   \<and> ((cachedChallenge st = None \<or> nc st > 99)
       \<and> snd (snd (acquire_v1 probe st cfg)) = None \<longrightarrow>
       (\<exists>ch. cachedChallenge (fst (acquire_v1 probe st cfg)) = Some ch
             \<and> realm ch \<noteq> [] \<and> nonce ch \<noteq> []))"
  using acquire_v2_invalid [of probe st cfg] acquire_v1_invalid [of probe st cfg]
    acquire_v2_installed [of st probe cfg] acquire_v1_installed [of st probe cfg]
  by blast

text \<open>
  A header without a realm fails with InvalidChallenge, and the example header is accepted
  with its challenge, in both files.
\<close>

theorem invalid_challenge_witness:
  "snd (snd (acquire_v2 (Response 401 (Some noRealmHeader)) initialState exampleRequest))
   = Some (InvalidChallenge \<lparr>realm = [], nonce = ''n'', qop = None, opaque = None,
                              algorithm = None\<rparr>)
   \<and> snd (snd (acquire_v1 (Response 401 (Some noRealmHeader)) initialState exampleRequest))
   = Some (InvalidChallenge \<lparr>realm = [], nonce = ''n'', qop = None, opaque = None,
                              algorithm = None\<rparr>)
   \<and> snd (snd (acquire_v2 (Response 401 (Some exampleHeader)) initialState exampleRequest))
     = None
   \<and> cachedChallenge (fst (acquire_v2 (Response 401 (Some exampleHeader)) initialState
        exampleRequest)) = Some exampleChallenge
   \<and> snd (snd (acquire_v1 (Response 401 (Some exampleHeader)) initialState exampleRequest))
     = None
   \<and> cachedChallenge (fst (acquire_v1 (Response 401 (Some exampleHeader)) initialState
        exampleRequest)) = Some exampleChallenge"
proof -
  have n: "noRealmHeader \<noteq> [] \<and> includesStr (toLowerCase noRealmHeader) ''digest ''
           \<and> parseDigestChallenge noRealmHeader
             = \<lparr>realm = [], nonce = ''n'', qop = None, opaque = None, algorithm = None\<rparr>
           \<and> parseDigestChallenge (digestPart noRealmHeader)
             = \<lparr>realm = [], nonce = ''n'', qop = None, opaque = None, algorithm = None\<rparr>"
    by code_simp
  have s2: "snd (snd (acquire_v2 (Response 401 (Some exampleHeader)) initialState exampleRequest))
     = None"
    using exampleHeader_digest
    by (simp add: acquire_v2_refresh initialState_def exampleHeader_parsed exampleChallenge_def)
  have s1: "snd (snd (acquire_v1 (Response 401 (Some exampleHeader)) initialState exampleRequest))
     = None"
    using exampleHeader_digest
    by (simp add: acquire_v1_refresh initialState_def exampleHeader_part_parsed
          exampleChallenge_def)
  have i2: "\<exists>ch. snd (snd (acquire_v2 (Response 401 (Some noRealmHeader)) initialState
                exampleRequest)) = Some (InvalidChallenge ch)"
    using invalid_challenge [of "Response 401 (Some noRealmHeader)" initialState exampleRequest] n
    by (simp add: initialState_def)
  have i1: "\<exists>ch. snd (snd (acquire_v1 (Response 401 (Some noRealmHeader)) initialState
                exampleRequest)) = Some (InvalidChallenge ch)"
    using invalid_challenge [of "Response 401 (Some noRealmHeader)" initialState exampleRequest] n
    by (simp add: initialState_def)
  from invalid_challenge [of "Response 401 (Some exampleHeader)" initialState exampleRequest]
    s2 s1
  have ok: "(\<exists>ch. cachedChallenge (fst (acquire_v2 (Response 401 (Some exampleHeader))
                initialState exampleRequest)) = Some ch \<and> realm ch \<noteq> [] \<and> nonce ch \<noteq> [])
          \<and> (\<exists>ch. cachedChallenge (fst (acquire_v1 (Response 401 (Some exampleHeader))
                initialState exampleRequest)) = Some ch \<and> realm ch \<noteq> [] \<and> nonce ch \<noteq> [])"
    by (simp add: initialState_def)
  show ?thesis
    using i2 i1 ok s2 s1 n exampleHeader_digest
    by (auto simp: acquire_v2_refresh acquire_v1_refresh initialState_def exampleHeader_parsed
          exampleHeader_part_parsed)
qed

text \<open>
  C6 as the specification states it fails for whitespace: the header
  \<open>Digest realm=" ", nonce="n"\<close> is accepted, and the challenge in the cache has a realm
  that is one space. The check is \<open>!realm || !nonce\<close>, and a string of spaces is truthy.
\<close>

theorem invalid_challenge_counterexample:
  "snd (snd (acquire_v2 (Response 401 (Some blankRealmHeader)) initialState exampleRequest))
   = None
   \<and> fst (acquire_v2 (Response 401 (Some blankRealmHeader)) initialState exampleRequest)
   = \<lparr>nc = 1,
      cachedChallenge = Some \<lparr>realm = '' '', nonce = ''n'', qop = None, opaque = None,
                              algorithm = None\<rparr>\<rparr>
   \<and> fst (acquire_v1 (Response 401 (Some blankRealmHeader)) initialState exampleRequest)
   = \<lparr>nc = 1,
      cachedChallenge = Some \<lparr>realm = '' '', nonce = ''n'', qop = None, opaque = None,
                              algorithm = None\<rparr>\<rparr>"
  by code_simp

text \<open>
  The parsed challenge is assigned to \<open>cachedChallenge\<close> before it is validated, so an
  acquisition that fails with InvalidChallenge leaves the invalid challenge in the cache,
  with \<open>nc\<close> as it was. The next call finds a cached challenge, sends no probe, and
  authenticates the request with the empty realm.
\<close>

lemma invalid_challenge_stays_cached:
  "fst (acquire_v2 (Response 401 (Some noRealmHeader)) initialState exampleRequest)
   = \<lparr>nc = 0,
      cachedChallenge = Some \<lparr>realm = [], nonce = ''n'', qop = None, opaque = None,
                              algorithm = None\<rparr>\<rparr>
   \<and> fst (acquire_v1 (Response 401 (Some noRealmHeader)) initialState exampleRequest)
   = \<lparr>nc = 0,
      cachedChallenge = Some \<lparr>realm = [], nonce = ''n'', qop = None, opaque = None,
                              algorithm = None\<rparr>\<rparr>"
  by code_simp

lemma invalid_challenge_used_by_next_call:
  "requestInterceptor_v2 symbolicCrypto exampleURL exampleConfig NoResponse ''0a4f113b''
     \<lparr>nc = 0,
      cachedChallenge = Some \<lparr>realm = [], nonce = ''n'', qop = None, opaque = None,
                              algorithm = None\<rparr>\<rparr> exampleRequest
   = (\<lparr>nc = 1,
       cachedChallenge = Some \<lparr>realm = [], nonce = ''n'', qop = None, opaque = None,
                               algorithm = None\<rparr>\<rparr>,
      [Console ''log'' ''Using auth header:''
         [Text ''Digest username=\"admin\", realm=\"\", nonce=\"n\", uri=\"/AccessControl/RemoteControl/door/1?x=1\", response=\"md5(md5(admin::secret):n:md5(PUT:/AccessControl/RemoteControl/door/1?x=1))\"'']],
      Inr (exampleRequest\<lparr>cfg_authorization := Some
         ''Digest username=\"admin\", realm=\"\", nonce=\"n\", uri=\"/AccessControl/RemoteControl/door/1?x=1\", response=\"md5(md5(admin::secret):n:md5(PUT:/AccessControl/RemoteControl/door/1?x=1))\"''\<rparr>))"
  by code_simp

section \<open>The directives of the Authorization header\<close>

lemma authValue_v2_spec:
  "authValue_v2 user ch uri response (formatNonceCount n) cnonce
   = spec_authValue user (withoutEmpty ch) uri response n cnonce"
  by (cases "qop ch"; cases "opaque ch"; cases "algorithm ch")
     (simp_all add: authValue_v2_def spec_authValue_def spec_directives_def withoutEmpty_def
        renderDirective_def)

lemma authValue_v1_spec:
  "\<not> truthy (algorithm ch) \<Longrightarrow>
   authValue_v1 user ch uri response (formatNonceCount n) cnonce
   = spec_authValue user (withoutEmpty ch) uri response n cnonce"
  by (cases "qop ch"; cases "opaque ch"; cases "algorithm ch")
     (simp_all add: authValue_v1_def spec_authValue_def spec_directives_def withoutEmpty_def
        renderDirective_def)

lemma requestInterceptor_v2_header:
  assumes "requestInterceptor_v2 cH newURL config probe c st cfg = (st1, ev1, Inr a)"
  shows "\<exists>ch response.
           cachedChallenge st1 = Some ch
           \<and> calculateDigestResponse_v2 cH (username config) (password config) ch (nc st1) c
                (orElse (map_option toUpperCase (cfg_method cfg)) ''GET'')
                (fst (requestUri_v2 newURL cfg)) = Inr response
           \<and> a = cfg\<lparr>cfg_authorization :=
                      Some (authValue_v2 (username config) ch (fst (requestUri_v2 newURL cfg))
                              response (formatNonceCount (nc st1)) c)\<rparr>"
proof -
  from assms requestInterceptor_v2_sent [of cH newURL config probe c st cfg a]
  have n: "snd (snd (acquire_v2 probe st cfg)) = None" by simp
  from assms requestInterceptor_v2_state [of cH newURL config probe c st cfg]
  have f: "fst (acquire_v2 probe st cfg) = st1" by simp
  from n f have acq: "acquire_v2 probe st cfg = (st1, fst (snd (acquire_v2 probe st cfg)), None)"
    by (cases "acquire_v2 probe st cfg") simp
  with acquire_v2_success_cached [OF acq] obtain ch where ch: "cachedChallenge st1 = Some ch"
    by auto
  from assms show ?thesis
    unfolding requestInterceptor_v2_acquired [OF acq ch]
    using ch by (auto simp: rethrow_def split: sum.splits)
qed

lemma requestInterceptor_v1_header:
  assumes "requestInterceptor_v1 cH newURL config probe c st cfg = (st1, ev1, Inr a)"
  shows "\<exists>ch response.
           cachedChallenge st1 = Some ch
           \<and> snd (calculateDigestResponse_v1 cH (username config) (password config) ch (nc st1)
                c (orElse (map_option toUpperCase (cfg_method cfg)) ''GET'')
                (requestUri_v1 newURL cfg)) = Inr response
           \<and> a = cfg\<lparr>cfg_authorization :=
                      Some (authValue_v1 (username config) ch (requestUri_v1 newURL cfg)
                              response (formatNonceCount (nc st1)) c)\<rparr>"
proof -
  from assms requestInterceptor_v1_sent [of cH newURL config probe c st cfg a]
  have n: "snd (snd (acquire_v1 probe st cfg)) = None" by simp
  from assms requestInterceptor_v1_state [of cH newURL config probe c st cfg]
  have f: "fst (acquire_v1 probe st cfg) = st1" by simp
  from n f have acq: "acquire_v1 probe st cfg = (st1, fst (snd (acquire_v1 probe st cfg)), None)"
    by (cases "acquire_v1 probe st cfg") simp
  with acquire_v1_success_cached [OF acq] obtain ch where ch: "cachedChallenge st1 = Some ch"
    by auto
  from assms show ?thesis
    unfolding requestInterceptor_v1_acquired [OF acq ch]
    using ch by (auto simp: rethrow_def split: sum.splits prod.splits)
qed

text \<open>
  C5, as the code has it. In the second file the \<open>Authorization\<close> value lists the
  directives in this order: \<open>username\<close>, \<open>realm\<close>, \<open>nonce\<close>, \<open>uri\<close>, \<open>response\<close>; then \<open>qop\<close>,
  \<open>nc\<close> (formatted) and \<open>cnonce\<close> exactly when the challenge has a \<open>qop\<close> that is not the
  empty string; then \<open>opaque\<close> exactly when the challenge has an \<open>opaque\<close> that is not the
  empty string; then \<open>algorithm\<close> exactly when the challenge has an \<open>algorithm\<close> that is not
  the empty string. Every value is double-quoted except those of \<open>qop\<close>, \<open>nc\<close> and
  \<open>algorithm\<close>. This is the value of the specification for the challenge without its empty
  optional fields, and it is the header of every request the interceptor lets through.
  The first file builds the same value for every challenge whose \<open>algorithm\<close> is absent or
  the empty string.
\<close>

theorem authorization_directives:
  "authValue_v2 user ch uri response (formatNonceCount n) cnonce
   = spec_authValue user (withoutEmpty ch) uri response n cnonce
   \<and> (\<not> truthy (algorithm ch) \<longrightarrow>
      authValue_v1 user ch uri response (formatNonceCount n) cnonce
      = spec_authValue user (withoutEmpty ch) uri response n cnonce)
   \<and> (requestInterceptor_v2 cH newURL config probe c st cfg = (st1, ev1, Inr a) \<longrightarrow>
      (\<exists>ch' uri' response'.
         cachedChallenge st1 = Some ch'
         \<and> cfg_authorization a
           = Some (spec_authValue (username config) (withoutEmpty ch') uri' response' (nc st1) c)))
   \<and> (requestInterceptor_v1 cH newURL config probe c st cfg = (st1, ev1, Inr a) \<longrightarrow>
      (\<exists>ch' uri' response'.
         cachedChallenge st1 = Some ch'
         \<and> (\<not> truthy (algorithm ch') \<longrightarrow>
            cfg_authorization a
            = Some (spec_authValue (username config) (withoutEmpty ch') uri' response' (nc st1)
                      c))))"
proof (intro conjI impI)
  show "authValue_v2 user ch uri response (formatNonceCount n) cnonce
        = spec_authValue user (withoutEmpty ch) uri response n cnonce"
    by (rule authValue_v2_spec)
next
  assume "\<not> truthy (algorithm ch)"
  then show "authValue_v1 user ch uri response (formatNonceCount n) cnonce
        = spec_authValue user (withoutEmpty ch) uri response n cnonce"
    by (rule authValue_v1_spec)
next
  assume "requestInterceptor_v2 cH newURL config probe c st cfg = (st1, ev1, Inr a)"
  from requestInterceptor_v2_header [OF this] obtain ch' response' where
    "cachedChallenge st1 = Some ch'"
    "a = cfg\<lparr>cfg_authorization :=
              Some (authValue_v2 (username config) ch' (fst (requestUri_v2 newURL cfg))
                      response' (formatNonceCount (nc st1)) c)\<rparr>"
    by blast
  then show "\<exists>ch' uri' response'.
         cachedChallenge st1 = Some ch'
         \<and> cfg_authorization a
           = Some (spec_authValue (username config) (withoutEmpty ch') uri' response' (nc st1) c)"
    by (auto simp: authValue_v2_spec)
next
  assume "requestInterceptor_v1 cH newURL config probe c st cfg = (st1, ev1, Inr a)"
  from requestInterceptor_v1_header [OF this] obtain ch' response' where
    "cachedChallenge st1 = Some ch'"
    "a = cfg\<lparr>cfg_authorization :=
              Some (authValue_v1 (username config) ch' (requestUri_v1 newURL cfg)
                      response' (formatNonceCount (nc st1)) c)\<rparr>"
    by blast
  then show "\<exists>ch' uri' response'.
         cachedChallenge st1 = Some ch'
         \<and> (\<not> truthy (algorithm ch') \<longrightarrow>
            cfg_authorization a
            = Some (spec_authValue (username config) (withoutEmpty ch') uri' response' (nc st1)
                      c))"
    by (auto simp: authValue_v1_spec)
qed


text \<open>
  The header for a challenge with every optional field, the header of the first file for
  a challenge without an algorithm, and the headers of the example request.
\<close>

theorem authorization_directives_witness:
  "authValue_v2 ''admin'' (exampleChallenge\<lparr>opaque := Some ''xyz'', algorithm := Some ''MD5''\<rparr>)
     ''/door/1'' ''r0'' (formatNonceCount 1) ''0a4f113b''
   = ''Digest username=\"admin\", realm=\"example\", nonce=\"abc123\", uri=\"/door/1\", response=\"r0\", qop=auth, nc=00000001, cnonce=\"0a4f113b\", opaque=\"xyz\", algorithm=MD5''
   \<and> authValue_v1 ''admin'' (exampleChallenge\<lparr>opaque := Some ''xyz''\<rparr>)
     ''/door/1'' ''r0'' (formatNonceCount 1) ''0a4f113b''
   = ''Digest username=\"admin\", realm=\"example\", nonce=\"abc123\", uri=\"/door/1\", response=\"r0\", qop=auth, nc=00000001, cnonce=\"0a4f113b\", opaque=\"xyz\"''
   \<and> (\<exists>st1 ev1 a ch' uri' response'.
        requestInterceptor_v2 symbolicCrypto exampleURL exampleConfig
          (Response 401 (Some exampleHeader)) ''0a4f113b'' initialState exampleRequest
        = (st1, ev1, Inr a)
        \<and> cachedChallenge st1 = Some ch'
        \<and> cfg_authorization a
          = Some (spec_authValue ''admin'' (withoutEmpty ch') uri' response' (nc st1)
                    ''0a4f113b''))
   \<and> (\<exists>st1 ev1 a ch' uri' response'.
        requestInterceptor_v1 symbolicCrypto exampleURL exampleConfig
          (Response 401 (Some exampleHeader)) ''0a4f113b'' initialState exampleRequest
        = (st1, ev1, Inr a)
        \<and> cachedChallenge st1 = Some ch'
        \<and> cfg_authorization a
          = Some (spec_authValue ''admin'' (withoutEmpty ch') uri' response' (nc st1)
                    ''0a4f113b''))"
proof -
  have e2: "spec_authValue ''admin''
      (withoutEmpty (exampleChallenge\<lparr>opaque := Some ''xyz'', algorithm := Some ''MD5''\<rparr>))
      ''/door/1'' ''r0'' 1 ''0a4f113b''
    = ''Digest username=\"admin\", realm=\"example\", nonce=\"abc123\", uri=\"/door/1\", response=\"r0\", qop=auth, nc=00000001, cnonce=\"0a4f113b\", opaque=\"xyz\", algorithm=MD5''"
    by code_simp
  have e1: "spec_authValue ''admin'' (withoutEmpty (exampleChallenge\<lparr>opaque := Some ''xyz''\<rparr>))
      ''/door/1'' ''r0'' 1 ''0a4f113b''
    = ''Digest username=\"admin\", realm=\"example\", nonce=\"abc123\", uri=\"/door/1\", response=\"r0\", qop=auth, nc=00000001, cnonce=\"0a4f113b\", opaque=\"xyz\"''"
    by code_simp
  have f: "\<not> truthy (algorithm (exampleChallenge\<lparr>opaque := Some ''xyz''\<rparr>))"
    by (simp add: exampleChallenge_def)
  from example_sent_v2 obtain s2 v2 a2 where
    r2: "requestInterceptor_v2 symbolicCrypto exampleURL exampleConfig
           (Response 401 (Some exampleHeader)) ''0a4f113b'' initialState exampleRequest
         = (s2, v2, Inr a2)"
    by (cases "requestInterceptor_v2 symbolicCrypto exampleURL exampleConfig
           (Response 401 (Some exampleHeader)) ''0a4f113b'' initialState exampleRequest";
        cases "snd (snd (requestInterceptor_v2 symbolicCrypto exampleURL exampleConfig
           (Response 401 (Some exampleHeader)) ''0a4f113b'' initialState exampleRequest))")
       auto
  from example_sent_v1 obtain s1 v1 a1 where
    r1: "requestInterceptor_v1 symbolicCrypto exampleURL exampleConfig
           (Response 401 (Some exampleHeader)) ''0a4f113b'' initialState exampleRequest
         = (s1, v1, Inr a1)"
    by (cases "requestInterceptor_v1 symbolicCrypto exampleURL exampleConfig
           (Response 401 (Some exampleHeader)) ''0a4f113b'' initialState exampleRequest";
        cases "snd (snd (requestInterceptor_v1 symbolicCrypto exampleURL exampleConfig
           (Response 401 (Some exampleHeader)) ''0a4f113b'' initialState exampleRequest))")
       auto
  have "fst (requestInterceptor_v1 symbolicCrypto exampleURL exampleConfig
           (Response 401 (Some exampleHeader)) ''0a4f113b'' initialState exampleRequest)
        = \<lparr>nc = 1, cachedChallenge = Some exampleChallenge\<rparr>"
    using requestInterceptor_v1_fresh [of initialState exampleHeader symbolicCrypto exampleURL
        exampleConfig "''0a4f113b''" exampleRequest] exampleHeader_digest
    by (simp add: initialState_def exampleHeader_part_parsed exampleChallenge_def)
  with r1 have s1: "s1 = \<lparr>nc = 1, cachedChallenge = Some exampleChallenge\<rparr>" by simp
  have u: "username exampleConfig = ''admin''" by (simp add: exampleConfig_def)
  have "authValue_v2 ''admin''
          (exampleChallenge\<lparr>opaque := Some ''xyz'', algorithm := Some ''MD5''\<rparr>)
          ''/door/1'' ''r0'' (formatNonceCount 1) ''0a4f113b''
        = ''Digest username=\"admin\", realm=\"example\", nonce=\"abc123\", uri=\"/door/1\", response=\"r0\", qop=auth, nc=00000001, cnonce=\"0a4f113b\", opaque=\"xyz\", algorithm=MD5''"
    using authorization_directives [where user = "''admin''"
        and ch = "exampleChallenge\<lparr>opaque := Some ''xyz'', algorithm := Some ''MD5''\<rparr>"
        and uri = "''/door/1''" and response = "''r0''" and n = 1 and cnonce = "''0a4f113b''"]
      e2
    by simp
  moreover have "authValue_v1 ''admin'' (exampleChallenge\<lparr>opaque := Some ''xyz''\<rparr>)
          ''/door/1'' ''r0'' (formatNonceCount 1) ''0a4f113b''
        = ''Digest username=\"admin\", realm=\"example\", nonce=\"abc123\", uri=\"/door/1\", response=\"r0\", qop=auth, nc=00000001, cnonce=\"0a4f113b\", opaque=\"xyz\"''"
    using authorization_directives [where user = "''admin''"
        and ch = "exampleChallenge\<lparr>opaque := Some ''xyz''\<rparr>"
        and uri = "''/door/1''" and response = "''r0''" and n = 1 and cnonce = "''0a4f113b''"]
      e1 f
    by simp
  moreover have "\<exists>ch' uri' response'.
        cachedChallenge s2 = Some ch'
        \<and> cfg_authorization a2
          = Some (spec_authValue ''admin'' (withoutEmpty ch') uri' response' (nc s2)
                    ''0a4f113b'')"
    using authorization_directives [where cH = symbolicCrypto and newURL = exampleURL
        and config = exampleConfig and probe = "Response 401 (Some exampleHeader)"
        and c = "''0a4f113b''" and st = initialState and cfg = exampleRequest
        and ?st1.0 = s2 and ?ev1.0 = v2 and a = a2] r2 u
    by simp
  moreover have "\<exists>ch' uri' response'.
        cachedChallenge s1 = Some ch'
        \<and> cfg_authorization a1
          = Some (spec_authValue ''admin'' (withoutEmpty ch') uri' response' (nc s1)
                    ''0a4f113b'')"
    using authorization_directives [where cH = symbolicCrypto and newURL = exampleURL
        and config = exampleConfig and probe = "Response 401 (Some exampleHeader)"
        and c = "''0a4f113b''" and st = initialState and cfg = exampleRequest
        and ?st1.0 = s1 and ?ev1.0 = v1 and a = a1] r1 u s1
    by (auto simp: exampleChallenge_def)
  ultimately show ?thesis using r2 r1 by blast
qed

text \<open>
  C5 as the specification states it, with a directive listed whenever its field is
  present, fails for a field that is the empty string: the challenge has an \<open>opaque\<close> (the
  parser yields one for \<open>opaque=""\<close>), the specification's value ends in \<open>opaque=""\<close>, and
  the header of the code has no \<open>opaque\<close> directive.
\<close>

theorem authorization_directives_counterexample:
  "opaque (exampleChallenge\<lparr>opaque := Some []\<rparr>) \<noteq> None
   \<and> authValue_v2 ''admin'' (exampleChallenge\<lparr>opaque := Some []\<rparr>) ''/door/1'' ''r0''
       (formatNonceCount 1) ''0a4f113b''
     = ''Digest username=\"admin\", realm=\"example\", nonce=\"abc123\", uri=\"/door/1\", response=\"r0\", qop=auth, nc=00000001, cnonce=\"0a4f113b\"''
   \<and> spec_authValue ''admin'' (exampleChallenge\<lparr>opaque := Some []\<rparr>) ''/door/1'' ''r0'' 1
       ''0a4f113b''
     = ''Digest username=\"admin\", realm=\"example\", nonce=\"abc123\", uri=\"/door/1\", response=\"r0\", qop=auth, nc=00000001, cnonce=\"0a4f113b\", opaque=\"\"''"
  by code_simp

section \<open>The request URI\<close>

lemma stripOrigin_shape:
  "stripOrigin x = x \<or> stripOrigin x = [] \<or> hd (stripOrigin x) = CHR ''/''"
proof -
  have d: "dropWhile (\<lambda>c. c \<noteq> CHR ''/'') ys = [] \<or> hd (dropWhile (\<lambda>c. c \<noteq> CHR ''/'') ys) = CHR ''/''"
    for ys :: string
    using hd_dropWhile [of "\<lambda>c. c \<noteq> CHR ''/''" ys] by auto
  show ?thesis
    using d [of "drop 8 x"] d [of "drop 7 x"]
    by (auto simp: stripOrigin_def Let_def)
qed

text \<open>
  What the two files compute as the URI, case by case, and that the URI in the response
  hash and the one in the \<open>uri\<close> directive are the same string. Where the platform's parser
  is asked and accepts, the URI is the \<open>pathname\<close> and \<open>search\<close> of the parsed URL.
\<close>

lemma requestUri_cases:
  "(newURL (orElse (cfg_url cfg) []) (cfg_baseURL cfg) = Some u \<longrightarrow>
      fst (requestUri_v2 newURL cfg) = pathname u @ search u)
   \<and> (newURL (orElse (cfg_url cfg) []) (cfg_baseURL cfg) = None \<longrightarrow>
      fst (requestUri_v2 newURL cfg) = orElse (cfg_url cfg) [])
   \<and> (cfg_url cfg = None \<longrightarrow> requestUri_v1 newURL cfg = [])
   \<and> (cfg_url cfg = Some x \<and> startsWith x ''http'' \<and> newURL x None = Some u \<longrightarrow>
      requestUri_v1 newURL cfg = pathname u @ search u)
   \<and> (cfg_url cfg = Some x \<and> startsWith x ''http'' \<and> newURL x None = None \<longrightarrow>
      requestUri_v1 newURL cfg = stripOrigin x
      \<and> (stripOrigin x = x \<or> stripOrigin x = [] \<or> hd (stripOrigin x) = CHR ''/''))
   \<and> (cfg_url cfg = Some x \<and> \<not> startsWith x ''http'' \<and> x \<noteq> [] \<and> truthy (cfg_baseURL cfg)
       \<and> newURL x (cfg_baseURL cfg) = Some u \<longrightarrow>
      requestUri_v1 newURL cfg = pathname u @ search u)
   \<and> (cfg_url cfg = Some x \<and> \<not> startsWith x ''http''
       \<and> (x = [] \<or> \<not> truthy (cfg_baseURL cfg) \<or> newURL x (cfg_baseURL cfg) = None) \<longrightarrow>
      requestUri_v1 newURL cfg = x)
   \<and> (requestInterceptor_v2 cH newURL config probe c st cfg = (st1, ev1, Inr a) \<longrightarrow>
      (\<exists>ch response.
         calculateDigestResponse_v2 cH (username config) (password config) ch (nc st1) c
           (orElse (map_option toUpperCase (cfg_method cfg)) ''GET'')
           (fst (requestUri_v2 newURL cfg)) = Inr response
         \<and> cfg_authorization a
           = Some (authValue_v2 (username config) ch (fst (requestUri_v2 newURL cfg)) response
                     (formatNonceCount (nc st1)) c)))
   \<and> (requestInterceptor_v1 cH newURL config probe c st cfg = (st1, ev1, Inr a) \<longrightarrow>
      (\<exists>ch response.
         snd (calculateDigestResponse_v1 cH (username config) (password config) ch (nc st1) c
                (orElse (map_option toUpperCase (cfg_method cfg)) ''GET'')
                (requestUri_v1 newURL cfg)) = Inr response
         \<and> cfg_authorization a
           = Some (authValue_v1 (username config) ch (requestUri_v1 newURL cfg) response
                     (formatNonceCount (nc st1)) c)))"
proof (intro conjI impI)
  assume "newURL (orElse (cfg_url cfg) []) (cfg_baseURL cfg) = Some u"
  then show "fst (requestUri_v2 newURL cfg) = pathname u @ search u"
    by (simp add: requestUri_v2_def Let_def)
next
  assume "newURL (orElse (cfg_url cfg) []) (cfg_baseURL cfg) = None"
  then show "fst (requestUri_v2 newURL cfg) = orElse (cfg_url cfg) []"
    by (simp add: requestUri_v2_def Let_def)
next
  assume "cfg_url cfg = None"
  then show "requestUri_v1 newURL cfg = []"
    by (simp add: requestUri_v1_def)
next
  assume "cfg_url cfg = Some x \<and> startsWith x ''http'' \<and> newURL x None = Some u"
  then show "requestUri_v1 newURL cfg = pathname u @ search u"
    by (simp add: requestUri_v1_def)
next
  assume "cfg_url cfg = Some x \<and> startsWith x ''http'' \<and> newURL x None = None"
  then show "requestUri_v1 newURL cfg = stripOrigin x"
    by (simp add: requestUri_v1_def)
next
  show "stripOrigin x = x \<or> stripOrigin x = [] \<or> hd (stripOrigin x) = CHR ''/''"
    by (rule stripOrigin_shape)
next
  assume "cfg_url cfg = Some x \<and> \<not> startsWith x ''http'' \<and> x \<noteq> [] \<and> truthy (cfg_baseURL cfg)
       \<and> newURL x (cfg_baseURL cfg) = Some u"
  then show "requestUri_v1 newURL cfg = pathname u @ search u"
    by (simp add: requestUri_v1_def)
next
  assume "cfg_url cfg = Some x \<and> \<not> startsWith x ''http''
       \<and> (x = [] \<or> \<not> truthy (cfg_baseURL cfg) \<or> newURL x (cfg_baseURL cfg) = None)"
  then show "requestUri_v1 newURL cfg = x"
    by (auto simp: requestUri_v1_def)
next
  assume "requestInterceptor_v2 cH newURL config probe c st cfg = (st1, ev1, Inr a)"
  from requestInterceptor_v2_header [OF this] obtain ch response where
    "calculateDigestResponse_v2 cH (username config) (password config) ch (nc st1) c
       (orElse (map_option toUpperCase (cfg_method cfg)) ''GET'')
       (fst (requestUri_v2 newURL cfg)) = Inr response"
    "a = cfg\<lparr>cfg_authorization :=
              Some (authValue_v2 (username config) ch (fst (requestUri_v2 newURL cfg))
                      response (formatNonceCount (nc st1)) c)\<rparr>"
    by blast
  then show "\<exists>ch response.
         calculateDigestResponse_v2 cH (username config) (password config) ch (nc st1) c
           (orElse (map_option toUpperCase (cfg_method cfg)) ''GET'')
           (fst (requestUri_v2 newURL cfg)) = Inr response
         \<and> cfg_authorization a
           = Some (authValue_v2 (username config) ch (fst (requestUri_v2 newURL cfg)) response
                     (formatNonceCount (nc st1)) c)"
    by (intro exI [of _ ch] exI [of _ response]) simp
next
  assume "requestInterceptor_v1 cH newURL config probe c st cfg = (st1, ev1, Inr a)"
  from requestInterceptor_v1_header [OF this] obtain ch response where
    "snd (calculateDigestResponse_v1 cH (username config) (password config) ch (nc st1) c
            (orElse (map_option toUpperCase (cfg_method cfg)) ''GET'')
            (requestUri_v1 newURL cfg)) = Inr response"
    "a = cfg\<lparr>cfg_authorization :=
              Some (authValue_v1 (username config) ch (requestUri_v1 newURL cfg)
                      response (formatNonceCount (nc st1)) c)\<rparr>"
    by blast
  then show "\<exists>ch response.
         snd (calculateDigestResponse_v1 cH (username config) (password config) ch (nc st1) c
                (orElse (map_option toUpperCase (cfg_method cfg)) ''GET'')
                (requestUri_v1 newURL cfg)) = Inr response
         \<and> cfg_authorization a
           = Some (authValue_v1 (username config) ch (requestUri_v1 newURL cfg) response
                     (formatNonceCount (nc st1)) c)"
    by (intro exI [of _ ch] exI [of _ response]) simp
qed

text \<open>
  C8 fails in the first file for an absolute URL whose scheme is not written in lower
  case, on a client without \<open>baseURL\<close>. The test \<open>requestConfig.url?.startsWith("http")\<close> is
  case-sensitive: for \<open>HTTP://device.local:8080/door/1?x=1\<close> it is false, no parser is
  asked whatever the parser is, and the URI that is hashed and sent in the \<open>uri\<close> directive
  is the whole URL with its scheme, host and port. The second file hands the same URL to
  the parser and gets \<open>/door/1?x=1\<close>, and the fallback expression of the first file, which
  ignores case, cuts the same URL down to \<open>/door/1?x=1\<close>.
\<close>

theorem request_uri_upper_case_scheme:
  "(\<forall>newURL. requestUri_v1 newURL upperCaseRequest = ''HTTP://device.local:8080/door/1?x=1'')
   \<and> fst (requestUri_v2 exampleURL upperCaseRequest) = ''/door/1?x=1''
   \<and> stripOrigin ''HTTP://device.local:8080/door/1?x=1'' = ''/door/1?x=1''
   \<and> snd (snd (requestInterceptor_v1 symbolicCrypto exampleURL exampleConfig
        (Response 401 (Some exampleHeader)) ''0a4f113b'' initialState upperCaseRequest))
     = Inr (upperCaseRequest\<lparr>cfg_authorization := Some
         ''Digest username=\"admin\", realm=\"example\", nonce=\"abc123\", uri=\"HTTP://device.local:8080/door/1?x=1\", response=\"md5(md5(admin:example:secret):abc123:00000001:0a4f113b:auth:md5(PUT:HTTP://device.local:8080/door/1?x=1))\", qop=auth, nc=00000001, cnonce=\"0a4f113b\"''\<rparr>)
   \<and> snd (snd (requestInterceptor_v2 symbolicCrypto exampleURL exampleConfig
        (Response 401 (Some exampleHeader)) ''0a4f113b'' initialState upperCaseRequest))
     = Inr (upperCaseRequest\<lparr>cfg_authorization := Some
         ''Digest username=\"admin\", realm=\"example\", nonce=\"abc123\", uri=\"/door/1?x=1\", response=\"md5(md5(admin:example:secret):abc123:00000001:0a4f113b:auth:md5(PUT:/door/1?x=1))\", qop=auth, nc=00000001, cnonce=\"0a4f113b\"''\<rparr>)"
proof -
  have s: "\<not> startsWith ''HTTP://device.local:8080/door/1?x=1'' ''http''" by code_simp
  have a: "\<forall>newURL. requestUri_v1 newURL upperCaseRequest
                    = ''HTTP://device.local:8080/door/1?x=1''"
    using s by (simp add: requestUri_v1_def upperCaseRequest_def)
  have b: "fst (requestUri_v2 exampleURL upperCaseRequest) = ''/door/1?x=1''
   \<and> stripOrigin ''HTTP://device.local:8080/door/1?x=1'' = ''/door/1?x=1''
   \<and> snd (snd (requestInterceptor_v1 symbolicCrypto exampleURL exampleConfig
        (Response 401 (Some exampleHeader)) ''0a4f113b'' initialState upperCaseRequest))
     = Inr (upperCaseRequest\<lparr>cfg_authorization := Some
         ''Digest username=\"admin\", realm=\"example\", nonce=\"abc123\", uri=\"HTTP://device.local:8080/door/1?x=1\", response=\"md5(md5(admin:example:secret):abc123:00000001:0a4f113b:auth:md5(PUT:HTTP://device.local:8080/door/1?x=1))\", qop=auth, nc=00000001, cnonce=\"0a4f113b\"''\<rparr>)
   \<and> snd (snd (requestInterceptor_v2 symbolicCrypto exampleURL exampleConfig
        (Response 401 (Some exampleHeader)) ''0a4f113b'' initialState upperCaseRequest))
     = Inr (upperCaseRequest\<lparr>cfg_authorization := Some
         ''Digest username=\"admin\", realm=\"example\", nonce=\"abc123\", uri=\"/door/1?x=1\", response=\"md5(md5(admin:example:secret):abc123:00000001:0a4f113b:auth:md5(PUT:/door/1?x=1))\", qop=auth, nc=00000001, cnonce=\"0a4f113b\"''\<rparr>)"
    by code_simp
  from a b show ?thesis by blast
qed

section \<open>What reaches the console\<close>

lemma requestInterceptor_v2_password:
  assumes "\<And>ch n m uri.
      calculateDigestResponse_v2 cH (username config) (password config) ch n c m uri
      = calculateDigestResponse_v2 cH (username config) p' ch n c m uri"
  shows "requestInterceptor_v2 cH newURL config probe c st cfg
         = requestInterceptor_v2 cH newURL (config\<lparr>password := p'\<rparr>) probe c st cfg"
  by (simp add: requestInterceptor_v2_def assms Let_def
        split: prod.splits option.splits sum.splits)

lemma requestInterceptor_v1_password:
  assumes "\<And>ch n m uri.
      calculateDigestResponse_v1 cH (username config) (password config) ch n c m uri
      = calculateDigestResponse_v1 cH (username config) p' ch n c m uri"
  shows "requestInterceptor_v1 cH newURL config probe c st cfg
         = requestInterceptor_v1 cH newURL (config\<lparr>password := p'\<rparr>) probe c st cfg"
  by (simp add: requestInterceptor_v1_def assms Let_def
        split: prod.splits option.splits sum.splits)

lemma calculateDigestResponse_v1_password:
  assumes "\<And>h r. cH ''md5'' = Some h \<Longrightarrow>
             h (u @ '':'' @ r @ '':'' @ p) = h (u @ '':'' @ r @ '':'' @ p')"
  shows "calculateDigestResponse_v1 cH u p ch n c m uri
         = calculateDigestResponse_v1 cH u p' ch n c m uri"
proof (cases "cH ''md5''")
  case None
  then show ?thesis by (simp add: calculateDigestResponse_v1_def toLowerCase_MD5)
next
  case (Some h)
  from assms [OF Some, of "realm ch"] Some show ?thesis
    by (simp add: calculateDigestResponse_v1_def toLowerCase_MD5 Let_def)
qed

lemma calculateDigestResponse_v2_password:
  assumes "\<And>name h r. cH name = Some h \<Longrightarrow>
             h (u @ '':'' @ r @ '':'' @ p) = h (u @ '':'' @ r @ '':'' @ p')"
  shows "calculateDigestResponse_v2 cH u p ch n c m uri
         = calculateDigestResponse_v2 cH u p' ch n c m uri"
proof (cases "cH (toLowerCase (orElse (algorithm ch) ''MD5''))")
  case None
  then show ?thesis by (simp add: calculateDigestResponse_v2_def)
next
  case (Some h)
  from assms [OF Some, of "realm ch"] Some show ?thesis
    by (simp add: calculateDigestResponse_v2_def Let_def)
qed

text \<open>
  C9, as the code has it. The password never reaches the console as such. Everything a
  call does, its console lines included, depends on the password only through HA1, the
  digest of \<open>username:realm:password\<close>: two clients that differ in the password alone
  behave alike on every call, whenever the platform's digests of
  \<open>username:realm:password\<close> are the same for the two passwords, for every realm. This holds
  in the first file for the digests of \<open>md5\<close> and in the second for those of every
  algorithm. In the second file a call depends on the password only through the response
  hash that the calculator returns. On a platform whose digests tell nothing, clients
  that differ in the password alone behave alike on every call, in both files.
\<close>

theorem console_password:
  "((\<forall>h r. cH ''md5'' = Some h \<longrightarrow>
        h (username config @ '':'' @ r @ '':'' @ password config)
        = h (username config @ '':'' @ r @ '':'' @ p')) \<longrightarrow>
      perform_v1 cH newURL config probe c reply st cfg
      = perform_v1 cH newURL (config\<lparr>password := p'\<rparr>) probe c reply st cfg)
   \<and> ((\<forall>name h r. cH name = Some h \<longrightarrow>
        h (username config @ '':'' @ r @ '':'' @ password config)
        = h (username config @ '':'' @ r @ '':'' @ p')) \<longrightarrow>
      perform_v2 cH newURL config probe c reply st cfg
      = perform_v2 cH newURL (config\<lparr>password := p'\<rparr>) probe c reply st cfg)
   \<and> ((\<forall>ch n m uri.
       calculateDigestResponse_v2 cH (username config) (password config) ch n c m uri
       = calculateDigestResponse_v2 cH (username config) p' ch n c m uri) \<longrightarrow>
      perform_v2 cH newURL config probe c reply st cfg
      = perform_v2 cH newURL (config\<lparr>password := p'\<rparr>) probe c reply st cfg)
   \<and> perform_v1 blindCrypto newURL config probe c reply st cfg
     = perform_v1 blindCrypto newURL (config\<lparr>password := p'\<rparr>) probe c reply st cfg
   \<and> perform_v2 blindCrypto newURL config probe c reply st cfg
     = perform_v2 blindCrypto newURL (config\<lparr>password := p'\<rparr>) probe c reply st cfg"
proof -
  have v1: "perform_v1 cH' newURL config probe c reply st cfg
      = perform_v1 cH' newURL (config\<lparr>password := p'\<rparr>) probe c reply st cfg"
    if "\<And>h r. cH' ''md5'' = Some h \<Longrightarrow>
          h (username config @ '':'' @ r @ '':'' @ password config)
          = h (username config @ '':'' @ r @ '':'' @ p')" for cH'
  proof -
    have "requestInterceptor_v1 cH' newURL config probe c st cfg
         = requestInterceptor_v1 cH' newURL (config\<lparr>password := p'\<rparr>) probe c st cfg"
      by (intro requestInterceptor_v1_password calculateDigestResponse_v1_password that)
    then show ?thesis by (simp add: perform_v1_def)
  qed
  have v2c: "perform_v2 cH' newURL config probe c reply st cfg
      = perform_v2 cH' newURL (config\<lparr>password := p'\<rparr>) probe c reply st cfg"
    if "\<And>ch n m uri.
       calculateDigestResponse_v2 cH' (username config) (password config) ch n c m uri
       = calculateDigestResponse_v2 cH' (username config) p' ch n c m uri" for cH'
  proof -
    have "requestInterceptor_v2 cH' newURL config probe c st cfg
         = requestInterceptor_v2 cH' newURL (config\<lparr>password := p'\<rparr>) probe c st cfg"
      by (intro requestInterceptor_v2_password that)
    then show ?thesis by (simp add: perform_v2_def)
  qed
  have v2: "perform_v2 cH' newURL config probe c reply st cfg
      = perform_v2 cH' newURL (config\<lparr>password := p'\<rparr>) probe c reply st cfg"
    if "\<And>name h r. cH' name = Some h \<Longrightarrow>
          h (username config @ '':'' @ r @ '':'' @ password config)
          = h (username config @ '':'' @ r @ '':'' @ p')" for cH'
    by (intro v2c calculateDigestResponse_v2_password that)
  have b1: "perform_v1 blindCrypto newURL config probe c reply st cfg
     = perform_v1 blindCrypto newURL (config\<lparr>password := p'\<rparr>) probe c reply st cfg"
    by (rule v1) (auto simp: blindCrypto_def)
  have b2: "perform_v2 blindCrypto newURL config probe c reply st cfg
     = perform_v2 blindCrypto newURL (config\<lparr>password := p'\<rparr>) probe c reply st cfg"
    by (rule v2) (auto simp: blindCrypto_def)
  show ?thesis
    using v1 [of cH] v2 [of cH] v2c [of cH] b1 b2 by blast
qed

text \<open>
  With a crypto provider whose digests tell nothing, the clients for the passwords
  \<open>secret\<close> and \<open>other\<close> cannot be told apart.
\<close>

theorem console_password_witness:
  "password exampleConfig \<noteq> ''other''
   \<and> perform_v1 blindCrypto exampleURL exampleConfig (Response 401 (Some exampleHeader))
     ''0a4f113b'' (Response 200 None) initialState exampleRequest
   = perform_v1 blindCrypto exampleURL (exampleConfig\<lparr>password := ''other''\<rparr>)
       (Response 401 (Some exampleHeader)) ''0a4f113b'' (Response 200 None) initialState
       exampleRequest
   \<and> perform_v2 blindCrypto exampleURL exampleConfig (Response 401 (Some exampleHeader))
     ''0a4f113b'' (Response 200 None) initialState exampleRequest
   = perform_v2 blindCrypto exampleURL (exampleConfig\<lparr>password := ''other''\<rparr>)
       (Response 401 (Some exampleHeader)) ''0a4f113b'' (Response 200 None) initialState
       exampleRequest"
proof -
  have h: "\<forall>name h r. blindCrypto name = Some h \<longrightarrow>
        h (username exampleConfig @ '':'' @ r @ '':'' @ password exampleConfig)
        = h (username exampleConfig @ '':'' @ r @ '':'' @ ''other'')"
    by (auto simp: blindCrypto_def)
  have p: "password exampleConfig \<noteq> ''other''" by (simp add: exampleConfig_def)
  from h have h1: "\<forall>h r. blindCrypto ''md5'' = Some h \<longrightarrow>
        h (username exampleConfig @ '':'' @ r @ '':'' @ password exampleConfig)
        = h (username exampleConfig @ '':'' @ r @ '':'' @ ''other'')"
    by blast
  show ?thesis
    using console_password [where cH = blindCrypto and config = exampleConfig
        and p' = "''other''" and newURL = exampleURL
        and probe = "Response 401 (Some exampleHeader)" and c = "''0a4f113b''"
        and reply = "Response 200 None" and st = initialState and cfg = exampleRequest]
      h h1 p
    by blast
qed

text \<open>
  C9 as the specification states it fails in both files. The console lines of the example
  call of the second file end with the \<open>Authorization\<close> value, which holds the username and
  the response hash; the calculator of the first file logs the username, HA1 and HA2
  (digests are symbolic here: \<open>md5(x)\<close> stands for the MD5 digest of \<open>x\<close>).
\<close>

theorem console_password_counterexample:
  "fst (snd (requestInterceptor_v2 symbolicCrypto exampleURL exampleConfig
       (Response 401 (Some exampleHeader)) ''0a4f113b'' initialState exampleRequest))
   = [Console ''log'' ''Requesting new digest challenge...'' [],
      Probe (Some ''put'') (Some ''http://device.local/AccessControl/RemoteControl/door/1?x=1'')
        None,
      Console ''log'' ''Desafio analisado:'' [Shown exampleChallenge],
      Console ''log'' ''Using auth header:''
        [Text ''Digest username=\"admin\", realm=\"example\", nonce=\"abc123\", uri=\"/AccessControl/RemoteControl/door/1?x=1\", response=\"md5(md5(admin:example:secret):abc123:00000001:0a4f113b:auth:md5(PUT:/AccessControl/RemoteControl/door/1?x=1))\", qop=auth, nc=00000001, cnonce=\"0a4f113b\"'']]
   \<and> calculateDigestResponse_v1 symbolicCrypto ''admin'' ''secret'' exampleChallenge 1
       ''0a4f113b'' ''PUT'' ''/door/1''
   = ([Console ''log'' ''Digest calculation values:''
         [Fields [(''username'', ''admin''), (''realm'', ''example''), (''method'', ''PUT''),
                  (''uri'', ''/door/1''), (''nonce'', ''abc123''), (''nc'', ''00000001''),
                  (''cnonce'', ''0a4f113b''), (''qop'', ''auth''),
                  (''ha1'', ''md5(admin:example:secret)''), (''ha2'', ''md5(PUT:/door/1)'')]]],
      Inr ''md5(md5(admin:example:secret):abc123:00000001:0a4f113b:auth:md5(PUT:/door/1))'')"
  by code_simp

end
